theory Spec2Isabelle
  imports Main "HOL-Library.Sublist"
begin

section \<open>Data model of package experiments\<close>

text \<open>
  A Go \<^verbatim>\<open>error\<close> is \<open>None\<close> for \<^verbatim>\<open>nil\<close> and \<open>Some msg\<close> for an error whose
  \<^verbatim>\<open>Error()\<close> text is \<open>msg\<close>; \<^verbatim>\<open>fmt.Errorf("ctx: %s", err)\<close> is the concatenation
  of the context and that text.

  The struct types come from imported packages. Each is a record holding the fields
  that \<^verbatim>\<open>experiments.go\<close> reads or writes; a field \<^verbatim>\<open>F\<close> of a type is named with a
  short prefix for the type, since several of the Go types share field names
  (\<^verbatim>\<open>URL\<close>, \<^verbatim>\<open>BuildDir\<close>, \<^verbatim>\<open>Name\<close>, ...).
\<close>

type_synonym error = "string option"

text \<open>\<^verbatim>\<open>implem.Info\<close>\<close>
record implem_Info =
  implem_ID :: string
  implem_Version :: string
  implem_URL :: string

text \<open>\<^verbatim>\<open>buildenv.Info\<close>\<close>
record buildenv_Info =
  env_BuildDir :: string
  env_ScratchDir :: string
  env_InstallDir :: string

text \<open>\<^verbatim>\<open>container.Config\<close>\<close>
record container_Config =
  ctr_Name :: string
  ctr_Path :: string
  ctr_Model :: string
  ctr_URL :: string
  ctr_BuildDir :: string
  ctr_InstallDir :: string
  ctr_Distro :: string

text \<open>\<^verbatim>\<open>app.Info\<close>\<close>
record app_Info =
  app_Name :: string

text \<open>\<^verbatim>\<open>results.Result\<close>\<close>
record results_Result =
  res_HostMPI :: implem_Info
  res_ContainerMPI :: implem_Info
  res_Pass :: bool
  res_Note :: string

text \<open>\<^verbatim>\<open>advexec.Result\<close>\<close>
record advexec_Result =
  exec_Err :: error
  exec_Stdout :: string
  exec_Stderr :: string

text \<open>\<^verbatim>\<open>mpi.Config\<close>\<close>
record mpi_Config =
  mpi_Implem :: implem_Info
  mpi_Buildenv :: buildenv_Info
  mpi_Container :: container_Config

text \<open>\<^verbatim>\<open>sys.Config\<close>\<close>
record sys_Config =
  sys_Persistent :: string
  sys_Nopriv :: bool
  sys_NetPipe :: bool
  sys_IMB :: bool
  sys_OutputFile :: string

text \<open>\<^verbatim>\<open>sy.MPIToolConfig\<close>\<close>
record sy_MPIToolConfig =
  sy_BuildPrivilege :: bool

text \<open>\<^verbatim>\<open>ContainerConfig\<close>, the structure this package declares.\<close>
record ContainerConfig =
  HostMPI :: implem_Info
  ContainerMPI :: implem_Info
  Container :: container_Config
  HostBuildEnv :: buildenv_Info
  ContainerBuildEnv :: buildenv_Info
  App :: app_Info
  Result :: results_Result

text \<open>The zero values of \<^verbatim>\<open>var x T\<close>.\<close>

definition zero_implem_Info :: implem_Info where
  "zero_implem_Info = \<lparr>implem_ID = [], implem_Version = [], implem_URL = []\<rparr>"

definition zero_buildenv_Info :: buildenv_Info where
  "zero_buildenv_Info = \<lparr>env_BuildDir = [], env_ScratchDir = [], env_InstallDir = []\<rparr>"

definition zero_container_Config :: container_Config where
  "zero_container_Config =
     \<lparr>ctr_Name = [], ctr_Path = [], ctr_Model = [], ctr_URL = [],
      ctr_BuildDir = [], ctr_InstallDir = [], ctr_Distro = []\<rparr>"

definition zero_results_Result :: results_Result where
  "zero_results_Result =
     \<lparr>res_HostMPI = zero_implem_Info, res_ContainerMPI = zero_implem_Info,
      res_Pass = False, res_Note = []\<rparr>"

definition zero_advexec_Result :: advexec_Result where
  "zero_advexec_Result = \<lparr>exec_Err = None, exec_Stdout = [], exec_Stderr = []\<rparr>"

definition zero_mpi_Config :: mpi_Config where
  "zero_mpi_Config =
     \<lparr>mpi_Implem = zero_implem_Info, mpi_Buildenv = zero_buildenv_Info,
      mpi_Container = zero_container_Config\<rparr>"

section \<open>GetMPIImplemFromExperiments\<close>

text \<open>
  Returns \<^verbatim>\<open>(*implem.Info, error)\<close>: the pointer is \<open>None\<close> for \<^verbatim>\<open>nil\<close> and
  \<open>Some\<close> of the value it points to otherwise.
\<close>

fun GetMPIImplemFromExperiments :: "ContainerConfig list \<Rightarrow> implem_Info option \<times> error" where
  "GetMPIImplemFromExperiments [] = (None, Some ''no experiment'')"
| "GetMPIImplemFromExperiments (e # rest) = (Some (HostMPI e), None)"

section \<open>GetOutputFilename\<close>

text \<open>
  The function writes \<^verbatim>\<open>sysCfg.OutputFile\<close> through the pointer; the model returns the
  error together with the updated settings.
\<close>

definition GetOutputFilename :: "string \<Rightarrow> sys_Config \<Rightarrow> error \<times> sys_Config" where
  "GetOutputFilename mpiImplem sysCfg =
     (let sysCfg1 = sysCfg\<lparr>sys_OutputFile := mpiImplem @ ''-init-results.txt''\<rparr>;
          sysCfg2 = (if sys_NetPipe sysCfg1
                     then sysCfg1\<lparr>sys_OutputFile := mpiImplem @ ''-netpipe-results.txt''\<rparr>
                     else sysCfg1);
          sysCfg3 = (if sys_IMB sysCfg2
                     then sysCfg2\<lparr>sys_OutputFile := mpiImplem @ ''-imb-results.txt''\<rparr>
                     else sysCfg2)
      in (None, sysCfg3))"

section \<open>Pruning\<close>

text \<open>
  The inner loop over \<^verbatim>\<open>existingResults\<close>: the value of \<^verbatim>\<open>found\<close> when the loop
  ends, either at the \<^verbatim>\<open>break\<close> or at the end of the slice.
\<close>

fun found :: "ContainerConfig \<Rightarrow> results_Result list \<Rightarrow> bool" where
  "found experiment [] = False"
| "found experiment (result # rest) =
     (if implem_Version (HostMPI experiment) = implem_Version (res_HostMPI result)
         \<and> implem_Version (ContainerMPI experiment) = implem_Version (res_ContainerMPI result)
      then True
      else found experiment rest)"

text \<open>The outer loop, with \<^verbatim>\<open>experimentsToRun\<close> as the accumulator.\<close>

fun Pruning_loop ::
  "ContainerConfig list \<Rightarrow> results_Result list \<Rightarrow> ContainerConfig list \<Rightarrow> ContainerConfig list" where
  "Pruning_loop [] existingResults experimentsToRun = experimentsToRun"
| "Pruning_loop (experiment # rest) existingResults experimentsToRun =
     Pruning_loop rest existingResults
       (if \<not> found experiment existingResults
        then experimentsToRun @ [experiment]
        else experimentsToRun)"

definition Pruning :: "ContainerConfig list \<Rightarrow> results_Result list \<Rightarrow> ContainerConfig list" where
  "Pruning experiments existingResults = Pruning_loop experiments existingResults []"

text \<open>
  The spec's wording of the pruner: a spec is covered when some recorded result has
  the same host version and the same container version.
\<close>

definition covered :: "results_Result list \<Rightarrow> ContainerConfig \<Rightarrow> bool" where
  "covered R e =
     list_ex (\<lambda>r. implem_Version (res_HostMPI r) = implem_Version (HostMPI e)
                \<and> implem_Version (res_ContainerMPI r) = implem_Version (ContainerMPI e)) R"

section \<open>External collaborators\<close>

text \<open>
  \<^verbatim>\<open>Run\<close> and its helpers call functions of other packages: the filesystem helpers of
  \<^verbatim>\<open>util\<close> and \<^verbatim>\<open>os\<close>, the builder, the container tools, the launcher, the diagnostic
  persister, and \<^verbatim>\<open>processOutput\<close>, which this package defines in another file. They
  are parameters of the model. Each acts on a world \<open>'w\<close> (filesystem, processes, installed
  software) about which nothing is assumed, and returns what the Go function returns. A
  collaborator reads the configurations it is handed through pointers and does not write
  them, with the exception of \<open>processOutput\<close>, which returns the outcome it has filled in.
  Collaborators return: a panic inside one of them is outside the model. The settings
  \<^verbatim>\<open>sysCfg\<close> and \<^verbatim>\<open>syConfig\<close> are the values the non-nil pointers refer to.
\<close>

text \<open>The function fields of \<^verbatim>\<open>builder.Builder\<close> that this package calls.\<close>
record 'w Builder =
  InstallOnHost :: "implem_Info \<Rightarrow> buildenv_Info \<Rightarrow> sys_Config \<Rightarrow> 'w \<Rightarrow> advexec_Result \<times> 'w"
  UninstallHost :: "implem_Info \<Rightarrow> buildenv_Info \<Rightarrow> sys_Config \<Rightarrow> 'w \<Rightarrow> advexec_Result \<times> 'w"
  GenerateDeffile ::
    "app_Info \<Rightarrow> implem_Info \<Rightarrow> buildenv_Info \<Rightarrow> container_Config \<Rightarrow> sys_Config \<Rightarrow> 'w \<Rightarrow> error \<times> 'w"

text \<open>\<open>'j\<close> is the job manager handle \<^verbatim>\<open>jm.JM\<close>, passed through to the launcher.\<close>
record ('w, 'j) collab =
  PathExists :: "string \<Rightarrow> 'w \<Rightarrow> bool"
  FileExists :: "string \<Rightarrow> 'w \<Rightarrow> bool"
  MkdirAll :: "string \<Rightarrow> 'w \<Rightarrow> error \<times> 'w"
  filepath_Join :: "string \<Rightarrow> string \<Rightarrow> string"
  GetContainerDefaultName :: "string \<Rightarrow> string \<Rightarrow> string \<Rightarrow> string \<Rightarrow> string \<Rightarrow> string"
  HybridModel :: string
  GetImageURL :: "implem_Info \<Rightarrow> sys_Config \<Rightarrow> string"
  IsPersistent :: "sys_Config \<Rightarrow> bool"
  jm_Detect :: "'w \<Rightarrow> 'j \<times> 'w"
  builder_Load :: "implem_Info \<Rightarrow> 'w \<Rightarrow> ('w Builder \<times> error) \<times> 'w"
  container_Create :: "container_Config \<Rightarrow> sys_Config \<Rightarrow> 'w \<Rightarrow> error \<times> 'w"
  PullContainerImage ::
    "container_Config \<Rightarrow> implem_Info \<Rightarrow> sys_Config \<Rightarrow> sy_MPIToolConfig \<Rightarrow> 'w \<Rightarrow> error \<times> 'w"
  SaveErrorDetails ::
    "implem_Info \<Rightarrow> implem_Info \<Rightarrow> sys_Config \<Rightarrow> advexec_Result \<Rightarrow> 'w \<Rightarrow> error \<times> 'w"
  launcher_Run ::
    "app_Info \<Rightarrow> mpi_Config \<Rightarrow> buildenv_Info \<Rightarrow> mpi_Config \<Rightarrow> 'j \<Rightarrow> sys_Config \<Rightarrow> 'w
       \<Rightarrow> (results_Result \<times> advexec_Result) \<times> 'w"
  processOutput ::
    "advexec_Result \<Rightarrow> results_Result \<Rightarrow> app_Info \<Rightarrow> sys_Config \<Rightarrow> 'w
       \<Rightarrow> (error \<times> results_Result) \<times> 'w"

text \<open>
  The calls that change the world are recorded, in order, each with the error it
  returned (the launcher with the two values it returned): the claims about which
  calls a run performs, and how often, are statements about this list.
\<close>

datatype call =
    is_MkdirAll: Call_MkdirAll string error
  | is_jm_Detect: Call_jm_Detect
  | is_builder_Load: Call_builder_Load error
  | is_InstallOnHost: Call_InstallOnHost error
  | is_UninstallHost: Call_UninstallHost error
  | is_GenerateDeffile: Call_GenerateDeffile error
  | is_container_Create: Call_container_Create error
  | is_PullContainerImage: Call_PullContainerImage error
  | is_SaveErrorDetails: Call_SaveErrorDetails error
  | is_launcher_Run: Call_launcher_Run results_Result advexec_Result
  | is_processOutput: Call_processOutput error

text \<open>The error a recorded call returned.\<close>

fun call_err :: "call \<Rightarrow> error" where
  "call_err (Call_MkdirAll dir err) = err"
| "call_err Call_jm_Detect = None"
| "call_err (Call_builder_Load err) = err"
| "call_err (Call_InstallOnHost err) = err"
| "call_err (Call_UninstallHost err) = err"
| "call_err (Call_GenerateDeffile err) = err"
| "call_err (Call_container_Create err) = err"
| "call_err (Call_PullContainerImage err) = err"
| "call_err (Call_SaveErrorDetails err) = err"
| "call_err (Call_launcher_Run expRes execRes) = exec_Err execRes"
| "call_err (Call_processOutput err) = err"

text \<open>A recorded launch whose outcome has the pass flag set.\<close>

fun launcher_passed :: "call \<Rightarrow> bool" where
  "launcher_passed (Call_launcher_Run expRes execRes) = res_Pass expRes"
| "launcher_passed cl = False"

record 'w st =
  world :: 'w
  calls :: "call list"

definition logged :: "('r \<Rightarrow> call) \<Rightarrow> ('w \<Rightarrow> 'r \<times> 'w) \<Rightarrow> 'w st \<Rightarrow> 'r \<times> 'w st" where
  "logged ev f s =
     (case f (world s) of (r, w) \<Rightarrow> (r, \<lparr>world = w, calls = calls s @ [ev r]\<rparr>))"

text \<open>
  The verb \<^verbatim>\<open>%s\<close> applied to an \<^verbatim>\<open>error\<close>: the text of the error, and
  \<^verbatim>\<open>%!s(<nil>)\<close> for a nil error.
\<close>

definition fmt_s :: "error \<Rightarrow> string" where
  "fmt_s err = (case err of None \<Rightarrow> ''%!s(<nil>)'' | Some msg \<Rightarrow> msg)"

section \<open>setExperimentCfg\<close>

text \<open>
  The block that \<open>setExperimentCfg\<close> runs for each of its four directories:
  \<^verbatim>\<open>if !util.PathExists(dir) { err := os.MkdirAll(dir, 0755); if err != nil { return
  ..., fmt.Errorf("failed to create %s: %s", dir, err) } } else { log.Printf(...) }\<close>.
  The result is the error that the function then returns, if any.
\<close>

definition mkdirIfAbsent :: "('w, 'j) collab \<Rightarrow> string \<Rightarrow> 'w st \<Rightarrow> error \<times> 'w st" where
  "mkdirIfAbsent c dir s =
     (if \<not> PathExists c dir (world s)
      then (case logged (Call_MkdirAll dir) (MkdirAll c dir) s of
              (Some err, s') \<Rightarrow> (Some (''failed to create '' @ dir @ '': '' @ err), s')
            | (None, s') \<Rightarrow> (None, s'))
      else (None, s))"

text \<open>
  \<open>exp\<close> is passed by value, so the assignment
  \<^verbatim>\<open>exp.Container.Path = myContainerMPICfg.Container.Path\<close> changes the function's own
  copy, which is only logged afterwards: the caller's experiment keeps the path it had.
  The function returns the two configurations and the error.
\<close>

definition setExperimentCfg ::
  "('w, 'j) collab \<Rightarrow> ContainerConfig \<Rightarrow> sys_Config \<Rightarrow> sy_MPIToolConfig \<Rightarrow> 'w st
     \<Rightarrow> (mpi_Config \<times> mpi_Config \<times> error) \<times> 'w st" where
  "setExperimentCfg c exp sysCfg syConfig s =
     (let myHostMPICfg = zero_mpi_Config\<lparr>mpi_Buildenv := HostBuildEnv exp, mpi_Implem := HostMPI exp\<rparr>
      in case mkdirIfAbsent c (env_BuildDir (mpi_Buildenv myHostMPICfg)) s of
           (Some err, s1) \<Rightarrow> ((myHostMPICfg, zero_mpi_Config, Some err), s1)
         | (None, s1) \<Rightarrow>
      (case mkdirIfAbsent c (env_ScratchDir (mpi_Buildenv myHostMPICfg)) s1 of
           (Some err, s2) \<Rightarrow> ((myHostMPICfg, zero_mpi_Config, Some err), s2)
         | (None, s2) \<Rightarrow>
      (let name = GetContainerDefaultName c (ctr_Distro (Container exp))
                    (implem_ID (ContainerMPI exp)) (implem_Version (ContainerMPI exp))
                    (app_Name (App exp)) (HybridModel c) @ ''.sif'';
           myContainerMPICfg =
             \<lparr>mpi_Implem = ContainerMPI exp,
              mpi_Buildenv = ContainerBuildEnv exp,
              mpi_Container =
                \<lparr>ctr_Name = name,
                 ctr_Path = filepath_Join c (env_InstallDir (ContainerBuildEnv exp)) name,
                 ctr_Model = HybridModel c,
                 ctr_URL = GetImageURL c (ContainerMPI exp) sysCfg,
                 ctr_BuildDir = env_BuildDir (ContainerBuildEnv exp),
                 ctr_InstallDir = env_InstallDir (ContainerBuildEnv exp),
                 ctr_Distro = ctr_Distro (Container exp)\<rparr>\<rparr>
       in case mkdirIfAbsent c (env_BuildDir (mpi_Buildenv myContainerMPICfg)) s2 of
            (Some err, s3) \<Rightarrow> ((myHostMPICfg, myContainerMPICfg, Some err), s3)
          | (None, s3) \<Rightarrow>
       (case mkdirIfAbsent c (env_ScratchDir (mpi_Buildenv myContainerMPICfg)) s3 of
            (Some err, s4) \<Rightarrow> ((myHostMPICfg, myContainerMPICfg, Some err), s4)
          | (None, s4) \<Rightarrow> ((myHostMPICfg, myContainerMPICfg, None), s4)))))"

section \<open>createMPIContainer and createNewContainer\<close>

definition createMPIContainer ::
  "('w, 'j) collab \<Rightarrow> app_Info \<Rightarrow> mpi_Config \<Rightarrow> buildenv_Info \<Rightarrow> sys_Config \<Rightarrow> 'w st
     \<Rightarrow> advexec_Result \<times> 'w st" where
  "createMPIContainer c appInfo mpiCfg env sysCfg s =
     (case logged (\<lambda>(b, err). Call_builder_Load err) (builder_Load c (mpi_Implem mpiCfg)) s of
        ((b, Some err), s1) \<Rightarrow> (zero_advexec_Result\<lparr>exec_Err := Some err\<rparr>, s1)
      | ((b, None), s1) \<Rightarrow>
     (case logged Call_GenerateDeffile
             (GenerateDeffile b appInfo (mpi_Implem mpiCfg) env (mpi_Container mpiCfg) sysCfg) s1 of
        (Some err, s2) \<Rightarrow>
          (zero_advexec_Result
             \<lparr>exec_Err := Some err,
              exec_Stderr := ''failed to generate Singularity definition file: '' @ err\<rparr>, s2)
      | (None, s2) \<Rightarrow>
     (case logged Call_container_Create (container_Create c (mpi_Container mpiCfg) sysCfg) s2 of
        (Some err, s3) \<Rightarrow>
          (zero_advexec_Result
             \<lparr>exec_Err := Some err,
              exec_Stderr := ''failed to create container image: '' @ err\<rparr>, s3)
      | (None, s3) \<Rightarrow> (zero_advexec_Result, s3))))"

definition createNewContainer ::
  "('w, 'j) collab \<Rightarrow> mpi_Config \<Rightarrow> ContainerConfig \<Rightarrow> sys_Config \<Rightarrow> sy_MPIToolConfig \<Rightarrow> 'w st
     \<Rightarrow> advexec_Result \<times> 'w st" where
  "createNewContainer c myContainerMPICfg exp sysCfg syConfig s =
     (if sys_Persistent sysCfg \<noteq> []
         \<and> FileExists c (ctr_Path (mpi_Container myContainerMPICfg)) (world s)
      then (zero_advexec_Result, s)
      else
        (case createMPIContainer c (App exp) myContainerMPICfg (ContainerBuildEnv exp) sysCfg s of
           (res, s1) \<Rightarrow>
             (case exec_Err res of
                Some resErr \<Rightarrow>
                  (case logged Call_SaveErrorDetails
                          (SaveErrorDetails c (HostMPI exp) (mpi_Implem myContainerMPICfg) sysCfg res) s1 of
                     (Some err, s2) \<Rightarrow>
                       (res\<lparr>exec_Err := Some (''failed to save error details: '' @ err)\<rparr>, s2)
                   | (None, s2) \<Rightarrow>
                       (res\<lparr>exec_Err := Some (''failed to create container: '' @ resErr)\<rparr>, s2))
              | None \<Rightarrow> (res, s1))))"

section \<open>Run\<close>

text \<open>
  \<open>Run\<close> either returns its three results or ends the process:
  \<^verbatim>\<open>log.Fatalf\<close> in the deferred function prints its message and calls
  \<^verbatim>\<open>os.Exit(1)\<close>.
\<close>

datatype outcome =
    Returned bool results_Result advexec_Result
  | Exited string

text \<open>
  Lines 228 to 258: the launch, the diagnostic on a tooling failure, the analysis. The
  function is given the value of the variable \<^verbatim>\<open>err\<close> and returns, beside the
  results, the value \<^verbatim>\<open>err\<close> has at the \<^verbatim>\<open>return\<close>, which the deferred function
  prints.
\<close>

definition Run_launch ::
  "('w, 'j) collab \<Rightarrow> ContainerConfig \<Rightarrow> sys_Config \<Rightarrow> mpi_Config \<Rightarrow> mpi_Config \<Rightarrow> 'j \<Rightarrow> error
     \<Rightarrow> 'w st \<Rightarrow> outcome \<times> error \<times> 'w st" where
  "Run_launch c exp sysCfg myHostMPICfg myContainerMPICfg jobmgr err s =
     (case logged (\<lambda>(expRes, execRes). Call_launcher_Run expRes execRes)
             (launcher_Run c (App exp) myHostMPICfg (HostBuildEnv exp) myContainerMPICfg jobmgr sysCfg) s of
        ((expRes, execRes), s1) \<Rightarrow>
          if \<not> res_Pass expRes then (Returned False expRes execRes, err, s1)
          else
            (case exec_Err execRes of
               Some runErr \<Rightarrow>
                 (let execRes1 = execRes\<lparr>exec_Err := Some (''failed to run experiment: '' @ runErr)\<rparr>
                  in case logged Call_SaveErrorDetails
                            (SaveErrorDetails c (HostMPI exp) (mpi_Implem myContainerMPICfg) sysCfg execRes1) s1 of
                       (Some saveErr, s2) \<Rightarrow>
                         (Returned False (expRes\<lparr>res_Pass := False\<rparr>)
                            (execRes1\<lparr>exec_Err := Some (''failed to save error details: '' @ saveErr)\<rparr>),
                          Some saveErr, s2)
                     | (None, s2) \<Rightarrow>
                         (Returned False (expRes\<lparr>res_Pass := False\<rparr>) execRes1, None, s2))
             | None \<Rightarrow>
                 (case logged (\<lambda>(err1, expRes1). Call_processOutput err1)
                         (processOutput c execRes expRes (App exp) sysCfg) s1 of
                    ((Some outErr, expRes1), s2) \<Rightarrow>
                      (Returned False (expRes1\<lparr>res_Pass := False\<rparr>)
                         (execRes\<lparr>exec_Err := Some (''failed to process output: '' @ outErr)\<rparr>),
                       Some outErr, s2)
                  | ((None, expRes1), s2) \<Rightarrow>
                      (Returned False (expRes1\<lparr>res_Pass := True\<rparr>) execRes, None, s2))))"

text \<open>
  Lines 207 to 226, followed by the launch when the image is ready. \<open>execRes\<close> is the
  result of the host install and \<^verbatim>\<open>err\<close> is nil here. The existence test is on
  \<^verbatim>\<open>exp.Container.Path\<close>, the path in the experiment that \<open>Run\<close> was given. When
  \<open>createNewContainer\<close> fails, the message is formatted from \<^verbatim>\<open>err\<close>, not from
  \<^verbatim>\<open>execRes.Err\<close>.
\<close>

definition Run_provision ::
  "('w, 'j) collab \<Rightarrow> ContainerConfig \<Rightarrow> sys_Config \<Rightarrow> sy_MPIToolConfig \<Rightarrow> mpi_Config \<Rightarrow> mpi_Config
     \<Rightarrow> 'j \<Rightarrow> advexec_Result \<Rightarrow> 'w st \<Rightarrow> outcome \<times> error \<times> 'w st" where
  "Run_provision c exp sysCfg syConfig myHostMPICfg myContainerMPICfg jobmgr execRes s =
     (if sy_BuildPrivilege syConfig \<or> sys_Nopriv sysCfg
      then
        (if \<not> PathExists c (ctr_Path (Container exp)) (world s)
         then
           (case createNewContainer c myContainerMPICfg exp sysCfg syConfig s of
              (execRes1, s1) \<Rightarrow>
                if exec_Err execRes1 \<noteq> None
                then (Returned False (zero_results_Result\<lparr>res_Pass := False\<rparr>)
                        (execRes1\<lparr>exec_Err := Some (''failed to create container: '' @ fmt_s None)\<rparr>),
                      None, s1)
                else Run_launch c exp sysCfg myHostMPICfg myContainerMPICfg jobmgr None s1)
         else Run_launch c exp sysCfg myHostMPICfg myContainerMPICfg jobmgr None s)
      else
        (case logged Call_PullContainerImage
                (PullContainerImage c (mpi_Container myContainerMPICfg) (mpi_Implem myContainerMPICfg)
                   sysCfg syConfig) s of
           (Some pullErr, s1) \<Rightarrow>
             (Returned False (zero_results_Result\<lparr>res_Pass := False\<rparr>)
                (execRes\<lparr>exec_Err := Some (''failed to pull container: '' @ pullErr)\<rparr>),
              Some pullErr, s1)
         | (None, s1) \<Rightarrow> Run_launch c exp sysCfg myHostMPICfg myContainerMPICfg jobmgr None s1))"

text \<open>
  The deferred function of lines 199 to 204, run when the body returns. The results of
  \<open>Run\<close> are unnamed, so the assignment to \<^verbatim>\<open>execRes\<close> does not change what was
  returned. On an uninstall error the process exits, with the message formatted from
  \<^verbatim>\<open>err\<close>.
\<close>

definition deferred_uninstall ::
  "'w Builder \<Rightarrow> mpi_Config \<Rightarrow> sys_Config \<Rightarrow> outcome \<times> error \<times> 'w st \<Rightarrow> outcome \<times> 'w st" where
  "deferred_uninstall b myHostMPICfg sysCfg body =
     (case body of
        (ret, err, s) \<Rightarrow>
          (case logged (\<lambda>execRes. Call_UninstallHost (exec_Err execRes))
                  (UninstallHost b (mpi_Implem myHostMPICfg) (mpi_Buildenv myHostMPICfg) sysCfg) s of
             (execRes, s1) \<Rightarrow>
               if exec_Err execRes \<noteq> None
               then (Exited (''failed to uninstall MPI: '' @ fmt_s err), s1)
               else (ret, s1)))"

definition Run ::
  "('w, 'j) collab \<Rightarrow> ContainerConfig \<Rightarrow> sys_Config \<Rightarrow> sy_MPIToolConfig \<Rightarrow> 'w st \<Rightarrow> outcome \<times> 'w st" where
  "Run c exp sysCfg syConfig s =
     (case setExperimentCfg c exp sysCfg syConfig s of
        ((myHostMPICfg, myContainerMPICfg, Some err), s1) \<Rightarrow>
          (Returned False (zero_results_Result\<lparr>res_Pass := False\<rparr>)
             (zero_advexec_Result
                \<lparr>exec_Err := Some (''failed to set experiment's configuration: '' @ err)\<rparr>), s1)
      | ((myHostMPICfg, myContainerMPICfg, None), s1) \<Rightarrow>
     (case logged (\<lambda>jobmgr. Call_jm_Detect) (jm_Detect c) s1 of
        (jobmgr, s2) \<Rightarrow>
     (case logged (\<lambda>(b, err). Call_builder_Load err) (builder_Load c (mpi_Implem myHostMPICfg)) s2 of
        ((b, Some err), s3) \<Rightarrow>
          (Returned False (zero_results_Result\<lparr>res_Pass := False\<rparr>)
             (zero_advexec_Result\<lparr>exec_Err := Some (''unable to load a builder: '' @ err)\<rparr>), s3)
      | ((b, None), s3) \<Rightarrow>
     (case logged (\<lambda>execRes. Call_InstallOnHost (exec_Err execRes))
             (InstallOnHost b (mpi_Implem myHostMPICfg) (mpi_Buildenv myHostMPICfg) sysCfg) s3 of
        (execRes, s4) \<Rightarrow>
          if exec_Err execRes \<noteq> None
          then
            (let execRes1 = execRes\<lparr>exec_Err := Some ''failed to install MPI on host''\<rparr>
             in case logged Call_SaveErrorDetails
                       (SaveErrorDetails c (HostMPI exp) (mpi_Implem myContainerMPICfg) sysCfg execRes1) s4 of
                  (Some saveErr, s5) \<Rightarrow>
                    (Returned False (zero_results_Result\<lparr>res_Pass := False\<rparr>)
                       (execRes1\<lparr>exec_Err := Some (''failed to save error details: '' @ saveErr)\<rparr>), s5)
                | (None, s5) \<Rightarrow>
                    (Returned False (zero_results_Result\<lparr>res_Pass := False\<rparr>) execRes1, s5))
          else if \<not> IsPersistent c sysCfg
          then deferred_uninstall b myHostMPICfg sysCfg
                 (Run_provision c exp sysCfg syConfig myHostMPICfg myContainerMPICfg jobmgr execRes s4)
          else
            (case Run_provision c exp sysCfg syConfig myHostMPICfg myContainerMPICfg jobmgr execRes s4 of
               (ret, err, s5) \<Rightarrow> (ret, s5))))))"

section \<open>Scripted collaborators\<close>

text \<open>
  Collaborators for running the model on concrete inputs. The world is the list of the
  paths that exist; a script fixes what each fallible call returns. A successful
  \<open>MkdirAll\<close> adds the directory, a successful image creation or pull adds the image
  path.
\<close>

record script =
  on_MkdirAll :: error
  on_builder_Load :: error
  on_InstallOnHost :: error
  on_UninstallHost :: error
  on_GenerateDeffile :: error
  on_container_Create :: error
  on_PullContainerImage :: error
  on_SaveErrorDetails :: error
  on_launcher_Pass :: bool
  on_launcher_Err :: error
  on_processOutput :: error

definition all_succeed :: script where
  "all_succeed =
     \<lparr>on_MkdirAll = None, on_builder_Load = None, on_InstallOnHost = None,
      on_UninstallHost = None, on_GenerateDeffile = None, on_container_Create = None,
      on_PullContainerImage = None, on_SaveErrorDetails = None, on_launcher_Pass = True,
      on_launcher_Err = None, on_processOutput = None\<rparr>"

definition scripted_Builder :: "script \<Rightarrow> string list Builder" where
  "scripted_Builder sc =
     \<lparr>InstallOnHost = (\<lambda>implem env sysCfg w. (zero_advexec_Result\<lparr>exec_Err := on_InstallOnHost sc\<rparr>, w)),
      UninstallHost = (\<lambda>implem env sysCfg w. (zero_advexec_Result\<lparr>exec_Err := on_UninstallHost sc\<rparr>, w)),
      GenerateDeffile = (\<lambda>appInfo implem env containerCfg sysCfg w. (on_GenerateDeffile sc, w))\<rparr>"

definition scripted :: "script \<Rightarrow> (string list, string) collab" where
  "scripted sc =
     \<lparr>PathExists = (\<lambda>path w. path \<in> set w),
      FileExists = (\<lambda>path w. path \<in> set w),
      MkdirAll = (\<lambda>dir w. case on_MkdirAll sc of None \<Rightarrow> (None, dir # w) | Some err \<Rightarrow> (Some err, w)),
      filepath_Join = (\<lambda>dir name. dir @ ''/'' @ name),
      GetContainerDefaultName =
        (\<lambda>distro id version appName model. distro @ ''-'' @ id @ ''-'' @ version @ ''-'' @ appName @ ''-'' @ model),
      HybridModel = ''hybrid'',
      GetImageURL = (\<lambda>implem sysCfg. []),
      IsPersistent = (\<lambda>sysCfg. sys_Persistent sysCfg \<noteq> []),
      jm_Detect = (\<lambda>w. (''native'', w)),
      builder_Load = (\<lambda>implem w. ((scripted_Builder sc, on_builder_Load sc), w)),
      container_Create =
        (\<lambda>containerCfg sysCfg w.
           case on_container_Create sc of
             None \<Rightarrow> (None, ctr_Path containerCfg # w)
           | Some err \<Rightarrow> (Some err, w)),
      PullContainerImage =
        (\<lambda>containerCfg implem sysCfg syConfig w.
           case on_PullContainerImage sc of
             None \<Rightarrow> (None, ctr_Path containerCfg # w)
           | Some err \<Rightarrow> (Some err, w)),
      SaveErrorDetails = (\<lambda>hostImplem containerImplem sysCfg res w. (on_SaveErrorDetails sc, w)),
      launcher_Run =
        (\<lambda>appInfo hostCfg hostEnv containerCfg jobmgr sysCfg w.
           ((zero_results_Result\<lparr>res_Pass := on_launcher_Pass sc\<rparr>,
             zero_advexec_Result\<lparr>exec_Err := on_launcher_Err sc\<rparr>), w)),
      processOutput =
        (\<lambda>execRes expRes appInfo sysCfg w. ((on_processOutput sc, expRes\<lparr>res_Note := ''ok''\<rparr>), w))\<rparr>"

text \<open>
  A concrete experiment, as a caller assembles it from a list of versions: the
  container path is left empty. The image it derives is
  \<^verbatim>\<open>/c/ubuntu-ompi-4.0-init-hybrid.sif\<close>.
\<close>

definition exp0 :: ContainerConfig where
  "exp0 =
     \<lparr>HostMPI = \<lparr>implem_ID = ''ompi'', implem_Version = ''4.0'', implem_URL = []\<rparr>,
      ContainerMPI = \<lparr>implem_ID = ''ompi'', implem_Version = ''4.0'', implem_URL = []\<rparr>,
      Container = zero_container_Config\<lparr>ctr_Distro := ''ubuntu''\<rparr>,
      HostBuildEnv = \<lparr>env_BuildDir = ''/hb'', env_ScratchDir = ''/hs'', env_InstallDir = ''/h''\<rparr>,
      ContainerBuildEnv = \<lparr>env_BuildDir = ''/cb'', env_ScratchDir = ''/cs'', env_InstallDir = ''/c''\<rparr>,
      App = \<lparr>app_Name = ''init''\<rparr>,
      Result = zero_results_Result\<rparr>"

definition sys0 :: sys_Config where
  "sys0 = \<lparr>sys_Persistent = [], sys_Nopriv = False, sys_NetPipe = False, sys_IMB = False,
           sys_OutputFile = []\<rparr>"

text \<open>
  \<^verbatim>\<open>strings.Contains(s, substr)\<close>, for the claims that an error text contains a
  message.
\<close>

fun strings_Contains :: "string \<Rightarrow> string \<Rightarrow> bool" where
  "strings_Contains [] substr = (substr = [])"
| "strings_Contains (ch # s) substr = (prefix substr (ch # s) \<or> strings_Contains s substr)"

section \<open>Shapes of the recorded calls\<close>

text \<open>
  Predicates on lists of calls, used to describe every path through \<open>Run\<close>: the
  directory creations of \<open>setExperimentCfg\<close> that succeeded; the calls of an image build
  that failed with the message \<open>e\<close>; the calls after which the image is ready (none when
  it is already there, a complete build, or a pull); and the end of a run after the
  host install, where the deferred uninstall is called unless the run is persistent
  and the process exits when it fails.
\<close>

definition mkdirs_ok :: "call list \<Rightarrow> bool" where
  "mkdirs_ok M = list_all (\<lambda>cl. is_MkdirAll cl \<and> call_err cl = None) M"

definition failed_build :: "string \<Rightarrow> call list \<Rightarrow> bool" where
  "failed_build e B =
     (B = [Call_builder_Load (Some e)]
      \<or> B = [Call_builder_Load None, Call_GenerateDeffile (Some e)]
      \<or> B = [Call_builder_Load None, Call_GenerateDeffile None, Call_container_Create (Some e)])"

definition image_ready :: "call list \<Rightarrow> bool" where
  "image_ready Q =
     (Q = []
      \<or> Q = [Call_builder_Load None, Call_GenerateDeffile None, Call_container_Create None]
      \<or> Q = [Call_PullContainerImage None])"

definition finished :: "bool \<Rightarrow> call list \<Rightarrow> outcome \<Rightarrow> outcome \<Rightarrow> bool" where
  "finished persistent U out0 out =
     (if persistent then U = [] \<and> out = out0
      else (U = [Call_UninstallHost None] \<and> out = out0)
           \<or> (\<exists>e m. U = [Call_UninstallHost (Some e)] \<and> out = Exited m))"

section \<open>Results on the pure functions\<close>

lemma found_covered: "found e R = covered R e"
  by (induction R) (auto simp: covered_def)

lemma Pruning_loop_filter:
  "Pruning_loop S R acc = acc @ filter (\<lambda>e. \<not> covered R e) S"
  by (induction S arbitrary: acc) (simp_all add: found_covered)

lemma Pruning_filter: "Pruning S R = filter (\<lambda>e. \<not> covered R e) S"
  by (simp add: Pruning_def Pruning_loop_filter)

text \<open>
  C2: \<open>Pruning S R\<close> is exactly the specs of \<open>S\<close>, in input order, for which no result
  of \<open>R\<close> has both the same host version and the same container version (string
  equality on both fields jointly); it is a subsequence of \<open>S\<close>. The function is a
  value-to-value map: \<open>S\<close> and \<open>R\<close> are not changed.
\<close>

theorem Pruning_exact:
  "Pruning S R =
     filter (\<lambda>e. \<not> (\<exists>r \<in> set R.
                       implem_Version (res_HostMPI r) = implem_Version (HostMPI e)
                     \<and> implem_Version (res_ContainerMPI r) = implem_Version (ContainerMPI e))) S
   \<and> subseq (Pruning S R) S"
  by (simp add: Pruning_filter covered_def list_ex_iff)

text \<open>
  The scenarios of the specification: a recorded result with the versions of \<open>exp0\<close>
  prunes it; with no recorded result it is kept.
\<close>

theorem Pruning_exact_witness:
  "Pruning [exp0] [zero_results_Result\<lparr>res_HostMPI := HostMPI exp0, res_ContainerMPI := ContainerMPI exp0,
                                       res_Pass := True\<rparr>] = []
   \<and> Pruning [exp0] [] = [exp0]"
  using Pruning_exact [of "[exp0]" "[zero_results_Result\<lparr>res_HostMPI := HostMPI exp0,
                                       res_ContainerMPI := ContainerMPI exp0, res_Pass := True\<rparr>]"]
    Pruning_exact [of "[exp0]" "[]"]
  by simp

text \<open>
  C9: pruning an already pruned list against the same results returns it unchanged.
\<close>

theorem Pruning_idempotent: "Pruning (Pruning S R) R = Pruning S R"
  by (simp add: Pruning_filter)

text \<open>
  C8: \<open>GetOutputFilename\<close> returns a nil error and sets the output file to the
  implementation id followed by \<^verbatim>\<open>-imb-results.txt\<close> when the IMB flag is set (also when
  NetPipe is set too), else by \<^verbatim>\<open>-netpipe-results.txt\<close> when the NetPipe flag is set,
  else by \<^verbatim>\<open>-init-results.txt\<close>.
\<close>

theorem GetOutputFilename_name:
  "fst (GetOutputFilename mpiImplem sysCfg) = None
   \<and> sys_OutputFile (snd (GetOutputFilename mpiImplem sysCfg)) =
       (if sys_IMB sysCfg then mpiImplem @ ''-imb-results.txt''
        else if sys_NetPipe sysCfg then mpiImplem @ ''-netpipe-results.txt''
        else mpiImplem @ ''-init-results.txt'')"
  by (simp add: GetOutputFilename_def)

text \<open>
  C10: \<open>GetMPIImplemFromExperiments\<close> returns an error exactly when the list is empty;
  for a non-empty list it returns the host MPI implementation of the first experiment,
  whatever the other experiments are.
\<close>

theorem GetMPIImplemFromExperiments_first:
  "(snd (GetMPIImplemFromExperiments experiments) \<noteq> None) = (experiments = [])
   \<and> GetMPIImplemFromExperiments (e # rest) = (Some (HostMPI e), None)"
  by (cases experiments) simp_all

section \<open>The paths through Run\<close>

text \<open>
  Each stage is characterised by the calls it adds and by what it returns; \<open>Run_paths\<close>
  puts the stages together: a run takes one of nine paths.
\<close>

lemma mkdirs_ok_simps:
  "mkdirs_ok []" "mkdirs_ok (cl # M) = (is_MkdirAll cl \<and> call_err cl = None \<and> mkdirs_ok M)"
  "mkdirs_ok (M @ N) = (mkdirs_ok M \<and> mkdirs_ok N)"
  by (simp_all add: mkdirs_ok_def)

lemma mkdirIfAbsent_shape:
  assumes "mkdirIfAbsent c dir s = (r, s1)"
  shows "\<exists>M. mkdirs_ok M \<and>
           (case r of
              None \<Rightarrow> calls s1 = calls s @ M
            | Some err \<Rightarrow> \<exists>e. err = ''failed to create '' @ dir @ '': '' @ e
                               \<and> calls s1 = calls s @ M @ [Call_MkdirAll dir (Some e)])"
proof (cases "PathExists c dir (world s)")
  case True
  with assms have "r = None" "s1 = s" by (simp_all add: mkdirIfAbsent_def)
  then show ?thesis by (intro exI [of _ "[]"]) (simp add: mkdirs_ok_simps)
next
  case False
  obtain e w where f: "MkdirAll c dir (world s) = (e, w)" by (cases "MkdirAll c dir (world s)")
  show ?thesis
  proof (cases e)
    case None
    with assms False f have "r = None" "calls s1 = calls s @ [Call_MkdirAll dir None]"
      by (auto simp: mkdirIfAbsent_def logged_def)
    then show ?thesis by (intro exI [of _ "[Call_MkdirAll dir None]"]) (simp add: mkdirs_ok_simps)
  next
    case (Some m)
    with assms False f have "r = Some (''failed to create '' @ dir @ '': '' @ m)"
      "calls s1 = calls s @ [Call_MkdirAll dir (Some m)]"
      by (auto simp: mkdirIfAbsent_def logged_def)
    then show ?thesis by (intro exI [of _ "[]"]) (simp add: mkdirs_ok_simps)
  qed
qed

lemma mkdirIfAbsent_None:
  "mkdirIfAbsent c dir s = (None, s1) \<Longrightarrow> \<exists>M. mkdirs_ok M \<and> calls s1 = calls s @ M"
  by (drule mkdirIfAbsent_shape) simp

lemma mkdirIfAbsent_Some:
  "mkdirIfAbsent c dir s = (Some err, s1) \<Longrightarrow>
     \<exists>e. err = ''failed to create '' @ dir @ '': '' @ e \<and> calls s1 = calls s @ [Call_MkdirAll dir (Some e)]"
  by (auto simp: mkdirIfAbsent_def logged_def split: if_splits prod.splits option.splits)

lemma setExperimentCfg_None:
  assumes "setExperimentCfg c exp sysCfg syConfig s = ((h, cc, None), s1)"
  shows "\<exists>M. mkdirs_ok M \<and> calls s1 = calls s @ M"
proof -
  from assms obtain sa sb sc where
    "mkdirIfAbsent c (env_BuildDir (HostBuildEnv exp)) s = (None, sa)"
    "mkdirIfAbsent c (env_ScratchDir (HostBuildEnv exp)) sa = (None, sb)"
    "mkdirIfAbsent c (env_BuildDir (ContainerBuildEnv exp)) sb = (None, sc)"
    "mkdirIfAbsent c (env_ScratchDir (ContainerBuildEnv exp)) sc = (None, s1)"
    by (auto simp: setExperimentCfg_def zero_mpi_Config_def Let_def split: prod.splits option.splits)
  then obtain Ma Mb Mc Md where "mkdirs_ok Ma" "mkdirs_ok Mb" "mkdirs_ok Mc" "mkdirs_ok Md"
    "calls s1 = calls s @ Ma @ Mb @ Mc @ Md"
    by (fastforce dest!: mkdirIfAbsent_None)
  then show ?thesis by (intro exI [of _ "Ma @ Mb @ Mc @ Md"]) (simp add: mkdirs_ok_simps)
qed

lemma setExperimentCfg_Some:
  assumes "setExperimentCfg c exp sysCfg syConfig s = ((h, cc, Some err), s1)"
  shows "\<exists>M dir e. mkdirs_ok M \<and> err = ''failed to create '' @ dir @ '': '' @ e
           \<and> calls s1 = calls s @ M @ [Call_MkdirAll dir (Some e)]"
proof -
  let ?d1 = "env_BuildDir (HostBuildEnv exp)" and ?d2 = "env_ScratchDir (HostBuildEnv exp)"
  and ?d3 = "env_BuildDir (ContainerBuildEnv exp)" and ?d4 = "env_ScratchDir (ContainerBuildEnv exp)"
  from assms consider
    (a) "mkdirIfAbsent c ?d1 s = (Some err, s1)"
  | (b) sa where "mkdirIfAbsent c ?d1 s = (None, sa)" "mkdirIfAbsent c ?d2 sa = (Some err, s1)"
  | (c) sa sb where "mkdirIfAbsent c ?d1 s = (None, sa)" "mkdirIfAbsent c ?d2 sa = (None, sb)"
      "mkdirIfAbsent c ?d3 sb = (Some err, s1)"
  | (d) sa sb sc where "mkdirIfAbsent c ?d1 s = (None, sa)" "mkdirIfAbsent c ?d2 sa = (None, sb)"
      "mkdirIfAbsent c ?d3 sb = (None, sc)" "mkdirIfAbsent c ?d4 sc = (Some err, s1)"
    by (auto simp: setExperimentCfg_def zero_mpi_Config_def Let_def split: prod.splits option.splits)
  then show ?thesis
  proof cases
    case a
    then obtain e where "err = ''failed to create '' @ ?d1 @ '': '' @ e"
      "calls s1 = calls s @ [] @ [Call_MkdirAll ?d1 (Some e)]"
      by (fastforce dest!: mkdirIfAbsent_Some)
    then show ?thesis by (intro exI [of _ "[]"] exI [of _ ?d1] exI [of _ e]) (simp add: mkdirs_ok_simps)
  next
    case b
    then obtain Ma e where "mkdirs_ok Ma" "err = ''failed to create '' @ ?d2 @ '': '' @ e"
      "calls s1 = calls s @ Ma @ [Call_MkdirAll ?d2 (Some e)]"
      by (fastforce dest!: mkdirIfAbsent_None mkdirIfAbsent_Some)
    then show ?thesis by (intro exI [of _ Ma] exI [of _ ?d2] exI [of _ e]) simp
  next
    case c
    then obtain Ma Mb e where "mkdirs_ok Ma" "mkdirs_ok Mb" "err = ''failed to create '' @ ?d3 @ '': '' @ e"
      "calls s1 = calls s @ (Ma @ Mb) @ [Call_MkdirAll ?d3 (Some e)]"
      by (fastforce dest!: mkdirIfAbsent_None mkdirIfAbsent_Some)
    then show ?thesis by (intro exI [of _ "Ma @ Mb"] exI [of _ ?d3] exI [of _ e]) (simp add: mkdirs_ok_simps)
  next
    case d
    then obtain Ma Mb Mc e where "mkdirs_ok Ma" "mkdirs_ok Mb" "mkdirs_ok Mc"
      "err = ''failed to create '' @ ?d4 @ '': '' @ e"
      "calls s1 = calls s @ (Ma @ Mb @ Mc) @ [Call_MkdirAll ?d4 (Some e)]"
      by (fastforce dest!: mkdirIfAbsent_None mkdirIfAbsent_Some)
    then show ?thesis by (intro exI [of _ "Ma @ Mb @ Mc"] exI [of _ ?d4] exI [of _ e]) (simp add: mkdirs_ok_simps)
  qed
qed

lemma Run_launch_cases:
  assumes "Run_launch c exp sysCfg h cc j err s = (out, err', s1)"
  obtains
    (failed_outcome) expRes execRes where
      "\<not> res_Pass expRes" "calls s1 = calls s @ [Call_launcher_Run expRes execRes]"
      "out = Returned False expRes execRes"
  | (run_failed) expRes execRes runErr saveErr where
      "res_Pass expRes" "exec_Err execRes = Some runErr"
      "calls s1 = calls s @ [Call_launcher_Run expRes execRes, Call_SaveErrorDetails saveErr]"
      "out = Returned False (expRes\<lparr>res_Pass := False\<rparr>)
               (execRes\<lparr>exec_Err := Some (case saveErr of
                                               None \<Rightarrow> ''failed to run experiment: '' @ runErr
                                             | Some m \<Rightarrow> ''failed to save error details: '' @ m)\<rparr>)"
  | (analysis_failed) expRes execRes outErr expRes1 where
      "res_Pass expRes" "exec_Err execRes = None"
      "calls s1 = calls s @ [Call_launcher_Run expRes execRes, Call_processOutput (Some outErr)]"
      "out = Returned False (expRes1\<lparr>res_Pass := False\<rparr>)
               (execRes\<lparr>exec_Err := Some (''failed to process output: '' @ outErr)\<rparr>)"
  | (passed) expRes execRes expRes1 where
      "res_Pass expRes" "exec_Err execRes = None"
      "calls s1 = calls s @ [Call_launcher_Run expRes execRes, Call_processOutput None]"
      "out = Returned False (expRes1\<lparr>res_Pass := True\<rparr>) execRes"
proof -
  obtain expRes execRes w where l:
    "launcher_Run c (App exp) h (HostBuildEnv exp) cc j sysCfg (world s) = ((expRes, execRes), w)"
    by (metis prod.exhaust)
  show thesis
  proof (cases "res_Pass expRes")
    case False
    with assms l show thesis
      by (intro failed_outcome [of expRes execRes]) (auto simp: Run_launch_def logged_def)
  next
    case True
    show thesis
    proof (cases "exec_Err execRes")
      case (Some runErr)
      obtain saveErr w' where sv:
        "SaveErrorDetails c (HostMPI exp) (mpi_Implem cc) sysCfg
           (execRes\<lparr>exec_Err := Some (''failed to run experiment: '' @ runErr)\<rparr>) w = (saveErr, w')"
        by (metis prod.exhaust)
      with assms l True Some show thesis
        by (intro run_failed [of expRes execRes runErr saveErr])
           (auto simp: Run_launch_def logged_def Let_def split: option.splits)
    next
      case None
      obtain outErr expRes1 w' where po:
        "processOutput c execRes expRes (App exp) sysCfg w = ((outErr, expRes1), w')"
        by (metis prod.exhaust)
      show thesis
      proof (cases outErr)
        case None': None
        with assms l True None po show thesis
          by (intro passed [of expRes execRes expRes1]) (auto simp: Run_launch_def logged_def)
      next
        case (Some m)
        with assms l True None po show thesis
          by (intro analysis_failed [of expRes execRes m expRes1]) (auto simp: Run_launch_def logged_def)
      qed
    qed
  qed
qed

lemma createMPIContainer_shape:
  assumes "createMPIContainer c appInfo mpiCfg env sysCfg s = (res, s1)"
  shows "(res = zero_advexec_Result
            \<and> calls s1 = calls s @ [Call_builder_Load None, Call_GenerateDeffile None, Call_container_Create None])
         \<or> (\<exists>e B. exec_Err res = Some e \<and> failed_build e B \<and> calls s1 = calls s @ B)"
  using assms
  by (auto simp: createMPIContainer_def logged_def failed_build_def zero_advexec_Result_def
      split: prod.splits option.splits)

lemma createNewContainer_cases:
  assumes "createNewContainer c cc exp sysCfg syConfig s = (res, s1)"
  obtains
    (ready) Q where "image_ready Q" "Q \<noteq> [Call_PullContainerImage None]"
      "calls s1 = calls s @ Q" "exec_Err res = None"
  | (build_failed) e B saveErr where "failed_build e B"
      "calls s1 = calls s @ B @ [Call_SaveErrorDetails saveErr]"
      "exec_Err res = Some (case saveErr of
                              None \<Rightarrow> ''failed to create container: '' @ e
                            | Some m \<Rightarrow> ''failed to save error details: '' @ m)"
proof (cases "sys_Persistent sysCfg \<noteq> [] \<and> FileExists c (ctr_Path (mpi_Container cc)) (world s)")
  case True
  with assms show thesis
    by (intro ready [of "[]"]) (auto simp: createNewContainer_def image_ready_def zero_advexec_Result_def)
next
  case False
  obtain r sa where m: "createMPIContainer c (App exp) cc (ContainerBuildEnv exp) sysCfg s = (r, sa)"
    by (metis prod.exhaust)
  from createMPIContainer_shape [OF m] show thesis
  proof (elim disjE exE conjE)
    assume "r = zero_advexec_Result"
      "calls sa = calls s @ [Call_builder_Load None, Call_GenerateDeffile None, Call_container_Create None]"
    with assms False m show thesis
      by (intro ready [of "[Call_builder_Load None, Call_GenerateDeffile None, Call_container_Create None]"])
         (auto simp: createNewContainer_def image_ready_def zero_advexec_Result_def)
  next
    fix e B
    assume b: "exec_Err r = Some e" "failed_build e B" "calls sa = calls s @ B"
    obtain saveErr w where sv:
      "SaveErrorDetails c (HostMPI exp) (mpi_Implem cc) sysCfg r (world sa) = (saveErr, w)"
      by (metis prod.exhaust)
    with assms False m b show thesis
      by (intro build_failed [of e B saveErr])
         (auto simp: createNewContainer_def logged_def split: option.splits)
  qed
qed

lemma Run_provision_cases:
  assumes "Run_provision c exp sysCfg syConfig h cc j execRes s = (out, err', s1)"
  obtains
    (build_failed) e B saveErr res where "failed_build e B"
      "calls s1 = calls s @ B @ [Call_SaveErrorDetails saveErr]"
      "out = Returned False (zero_results_Result\<lparr>res_Pass := False\<rparr>)
               (res\<lparr>exec_Err := Some (''failed to create container: '' @ fmt_s None)\<rparr>)"
  | (pull_failed) pullErr where
      "calls s1 = calls s @ [Call_PullContainerImage (Some pullErr)]"
      "out = Returned False (zero_results_Result\<lparr>res_Pass := False\<rparr>)
               (execRes\<lparr>exec_Err := Some (''failed to pull container: '' @ pullErr)\<rparr>)"
  | (launched) Q sq where "image_ready Q" "calls sq = calls s @ Q"
      "Run_launch c exp sysCfg h cc j None sq = (out, err', s1)"
proof (cases "sy_BuildPrivilege syConfig \<or> sys_Nopriv sysCfg")
  case priv: True
  show thesis
  proof (cases "PathExists c (ctr_Path (Container exp)) (world s)")
    case True
    with assms priv show thesis
      by (intro launched [of "[]" s]) (auto simp: Run_provision_def image_ready_def)
  next
    case False
    obtain res sa where n: "createNewContainer c cc exp sysCfg syConfig s = (res, sa)"
      by (metis prod.exhaust)
    from n show thesis
    proof (cases rule: createNewContainer_cases)
      case (ready Q)
      with assms priv False n show thesis
        by (intro launched [of Q sa]) (auto simp: Run_provision_def)
    next
      case (build_failed e B saveErr)
      with assms priv False n show thesis
        by (intro that(1) [of e B saveErr res]) (auto simp: Run_provision_def)
    qed
  qed
next
  case False
  obtain pullErr w where p:
    "PullContainerImage c (mpi_Container cc) (mpi_Implem cc) sysCfg syConfig (world s) = (pullErr, w)"
    by (metis prod.exhaust)
  show thesis
  proof (cases pullErr)
    case None
    with assms False p show thesis
      by (intro launched [of "[Call_PullContainerImage None]" "\<lparr>world = w, calls = calls s @ [Call_PullContainerImage None]\<rparr>"])
         (auto simp: Run_provision_def logged_def image_ready_def)
  next
    case (Some m)
    with assms False p show thesis
      by (intro pull_failed [of m]) (auto simp: Run_provision_def logged_def)
  qed
qed

lemma deferred_uninstall_finished:
  assumes "deferred_uninstall b h sysCfg (out0, err, sb) = (out, s')"
  shows "\<exists>U. calls s' = calls sb @ U \<and> finished False U out0 out"
  using assms
  by (auto simp: deferred_uninstall_def logged_def finished_def split: prod.splits if_splits)

lemma Run_cases:
  assumes "Run c exp sysCfg syConfig s = (out, s')"
  obtains
    (cfg_failed) M dir e where "mkdirs_ok M"
      "calls s' = calls s @ M @ [Call_MkdirAll dir (Some e)]"
      "out = Returned False (zero_results_Result\<lparr>res_Pass := False\<rparr>)
               (zero_advexec_Result
                  \<lparr>exec_Err := Some (''failed to set experiment's configuration: ''
                                      @ ''failed to create '' @ dir @ '': '' @ e)\<rparr>)"
  | (load_failed) M e where "mkdirs_ok M"
      "calls s' = calls s @ M @ [Call_jm_Detect, Call_builder_Load (Some e)]"
      "out = Returned False (zero_results_Result\<lparr>res_Pass := False\<rparr>)
               (zero_advexec_Result\<lparr>exec_Err := Some (''unable to load a builder: '' @ e)\<rparr>)"
  | (install_failed) M e saveErr execRes where "mkdirs_ok M"
      "calls s' = calls s @ M @ [Call_jm_Detect, Call_builder_Load None, Call_InstallOnHost (Some e),
                                 Call_SaveErrorDetails saveErr]"
      "out = Returned False (zero_results_Result\<lparr>res_Pass := False\<rparr>)
               (execRes\<lparr>exec_Err := Some (case saveErr of
                                               None \<Rightarrow> ''failed to install MPI on host''
                                             | Some m \<Rightarrow> ''failed to save error details: '' @ m)\<rparr>)"
  | (installed) M h cc j execRes sa out0 err sb U where "mkdirs_ok M"
      "calls sa = calls s @ M @ [Call_jm_Detect, Call_builder_Load None, Call_InstallOnHost None]"
      "Run_provision c exp sysCfg syConfig h cc j execRes sa = (out0, err, sb)"
      "calls s' = calls sb @ U" "finished (IsPersistent c sysCfg) U out0 out"
proof -
  obtain h cc cfgErr s1 where cfg: "setExperimentCfg c exp sysCfg syConfig s = ((h, cc, cfgErr), s1)"
    by (metis prod.exhaust)
  show thesis
  proof (cases cfgErr)
    case (Some m)
    from cfg [unfolded Some] obtain M dir e where "mkdirs_ok M"
      "m = ''failed to create '' @ dir @ '': '' @ e"
      "calls s1 = calls s @ M @ [Call_MkdirAll dir (Some e)]"
      by (blast dest: setExperimentCfg_Some)
    with assms cfg Some show thesis
      by (intro cfg_failed [of M dir e]) (auto simp: Run_def)
  next
    case None
    from cfg [unfolded None] obtain M where M: "mkdirs_ok M" "calls s1 = calls s @ M"
      by (blast dest: setExperimentCfg_None)
    obtain j w2 where jm: "jm_Detect c (world s1) = (j, w2)" by (metis prod.exhaust)
    obtain b loadErr w3 where ld: "builder_Load c (mpi_Implem h) w2 = ((b, loadErr), w3)"
      by (metis prod.exhaust)
    show thesis
    proof (cases loadErr)
      case (Some m)
      with assms cfg None M jm ld show thesis
        by (intro load_failed [of M m]) (auto simp: Run_def logged_def)
    next
      case ldok: None
      obtain execRes w4 where ins:
        "InstallOnHost b (mpi_Implem h) (mpi_Buildenv h) sysCfg w3 = (execRes, w4)"
        by (metis prod.exhaust)
      show thesis
      proof (cases "exec_Err execRes")
        case (Some m)
        obtain saveErr w5 where sv:
          "SaveErrorDetails c (HostMPI exp) (mpi_Implem cc) sysCfg
             (execRes\<lparr>exec_Err := Some ''failed to install MPI on host''\<rparr>) w4 = (saveErr, w5)"
          by (metis prod.exhaust)
        with assms cfg None M jm ld ldok ins Some show thesis
          by (intro install_failed [of M m saveErr execRes])
             (auto simp: Run_def logged_def Let_def split: option.splits)
      next
        case insok: None
        let ?sa = "\<lparr>world = w4, calls = calls s @ M @ [Call_jm_Detect, Call_builder_Load None, Call_InstallOnHost None]\<rparr>"
        obtain out0 err sb where pr:
          "Run_provision c exp sysCfg syConfig h cc j execRes ?sa = (out0, err, sb)"
          by (metis prod.exhaust)
        show thesis
        proof (cases "IsPersistent c sysCfg")
          case True
          with assms cfg None M jm ld ldok ins insok pr show thesis
            by (intro installed [of M ?sa h cc j execRes out0 err sb "[]"])
               (auto simp: Run_def logged_def finished_def)
        next
          case False
          with assms cfg None M jm ld ldok ins insok pr
          have "deferred_uninstall b h sysCfg (out0, err, sb) = (out, s')"
            by (auto simp: Run_def logged_def)
          then obtain U where "calls s' = calls sb @ U" "finished False U out0 out"
            by (blast dest: deferred_uninstall_finished)
          with False M pr show thesis
            by (intro installed [of M ?sa h cc j execRes out0 err sb U]) auto
        qed
      qed
    qed
  qed
qed

lemma Run_paths:
  assumes "Run c exp sysCfg syConfig s = (out, s')"
  obtains
    (cfg_failed) M dir e where "mkdirs_ok M"
      "calls s' = calls s @ M @ [Call_MkdirAll dir (Some e)]"
      "out = Returned False (zero_results_Result\<lparr>res_Pass := False\<rparr>)
               (zero_advexec_Result
                  \<lparr>exec_Err := Some (''failed to set experiment's configuration: ''
                                      @ ''failed to create '' @ dir @ '': '' @ e)\<rparr>)"
  | (load_failed) M e where "mkdirs_ok M"
      "calls s' = calls s @ M @ [Call_jm_Detect, Call_builder_Load (Some e)]"
      "out = Returned False (zero_results_Result\<lparr>res_Pass := False\<rparr>)
               (zero_advexec_Result\<lparr>exec_Err := Some (''unable to load a builder: '' @ e)\<rparr>)"
  | (install_failed) M e saveErr execRes where "mkdirs_ok M"
      "calls s' = calls s @ M @ [Call_jm_Detect, Call_builder_Load None, Call_InstallOnHost (Some e),
                                 Call_SaveErrorDetails saveErr]"
      "out = Returned False (zero_results_Result\<lparr>res_Pass := False\<rparr>)
               (execRes\<lparr>exec_Err := Some (case saveErr of
                                               None \<Rightarrow> ''failed to install MPI on host''
                                             | Some m \<Rightarrow> ''failed to save error details: '' @ m)\<rparr>)"
  | (build_failed) M e B saveErr res U where "mkdirs_ok M" "failed_build e B"
      "calls s' = calls s @ M @ [Call_jm_Detect, Call_builder_Load None, Call_InstallOnHost None]
                   @ B @ [Call_SaveErrorDetails saveErr] @ U"
      "finished (IsPersistent c sysCfg) U
         (Returned False (zero_results_Result\<lparr>res_Pass := False\<rparr>)
            (res\<lparr>exec_Err := Some (''failed to create container: '' @ fmt_s None)\<rparr>)) out"
  | (pull_failed) M pullErr execRes U where "mkdirs_ok M"
      "calls s' = calls s @ M @ [Call_jm_Detect, Call_builder_Load None, Call_InstallOnHost None]
                   @ [Call_PullContainerImage (Some pullErr)] @ U"
      "finished (IsPersistent c sysCfg) U
         (Returned False (zero_results_Result\<lparr>res_Pass := False\<rparr>)
            (execRes\<lparr>exec_Err := Some (''failed to pull container: '' @ pullErr)\<rparr>)) out"
  | (failed_outcome) M Q expRes execRes U where "mkdirs_ok M" "image_ready Q"
      "\<not> res_Pass expRes"
      "calls s' = calls s @ M @ [Call_jm_Detect, Call_builder_Load None, Call_InstallOnHost None]
                   @ Q @ [Call_launcher_Run expRes execRes] @ U"
      "finished (IsPersistent c sysCfg) U (Returned False expRes execRes) out"
  | (run_failed) M Q expRes execRes runErr saveErr U where "mkdirs_ok M" "image_ready Q"
      "res_Pass expRes" "exec_Err execRes = Some runErr"
      "calls s' = calls s @ M @ [Call_jm_Detect, Call_builder_Load None, Call_InstallOnHost None]
                   @ Q @ [Call_launcher_Run expRes execRes, Call_SaveErrorDetails saveErr] @ U"
      "finished (IsPersistent c sysCfg) U
         (Returned False (expRes\<lparr>res_Pass := False\<rparr>)
            (execRes\<lparr>exec_Err := Some (case saveErr of
                                            None \<Rightarrow> ''failed to run experiment: '' @ runErr
                                          | Some m \<Rightarrow> ''failed to save error details: '' @ m)\<rparr>)) out"
  | (analysis_failed) M Q expRes execRes outErr expRes1 U where "mkdirs_ok M" "image_ready Q"
      "res_Pass expRes" "exec_Err execRes = None"
      "calls s' = calls s @ M @ [Call_jm_Detect, Call_builder_Load None, Call_InstallOnHost None]
                   @ Q @ [Call_launcher_Run expRes execRes, Call_processOutput (Some outErr)] @ U"
      "finished (IsPersistent c sysCfg) U
         (Returned False (expRes1\<lparr>res_Pass := False\<rparr>)
            (execRes\<lparr>exec_Err := Some (''failed to process output: '' @ outErr)\<rparr>)) out"
  | (passed) M Q expRes execRes expRes1 U where "mkdirs_ok M" "image_ready Q"
      "res_Pass expRes" "exec_Err execRes = None"
      "calls s' = calls s @ M @ [Call_jm_Detect, Call_builder_Load None, Call_InstallOnHost None]
                   @ Q @ [Call_launcher_Run expRes execRes, Call_processOutput None] @ U"
      "finished (IsPersistent c sysCfg) U (Returned False (expRes1\<lparr>res_Pass := True\<rparr>) execRes) out"
  using assms
proof (cases rule: Run_cases)
  case (cfg_failed M dir e)
  then show thesis by (rule that(1))
next
  case (load_failed M e)
  then show thesis by (rule that(2))
next
  case (install_failed M e saveErr execRes)
  then show thesis by (rule that(3))
next
  case (installed M h cc j execRes sa out0 err sb U)
  from installed(3) show thesis
  proof (cases rule: Run_provision_cases)
    case (build_failed e B saveErr res)
    with installed show thesis by (intro that(4) [of M e B saveErr U res]) auto
  next
    case (pull_failed pullErr)
    with installed show thesis by (intro that(5) [of M pullErr U execRes]) auto
  next
    case (launched Q sq)
    from launched(3) show thesis
    proof (cases rule: Run_launch_cases)
      case (failed_outcome expRes execRes')
      with installed launched show thesis by (intro that(6) [of M Q expRes execRes' U]) auto
    next
      case (run_failed expRes execRes' runErr saveErr)
      with installed launched show thesis
        by (intro that(7) [of M Q expRes execRes' runErr saveErr U]) auto
    next
      case (analysis_failed expRes execRes' outErr expRes1)
      with installed launched show thesis
        by (intro that(8) [of M Q expRes execRes' outErr U expRes1]) auto
    next
      case (passed expRes execRes' expRes1)
      with installed launched show thesis by (intro that(9) [of M Q expRes execRes' U expRes1]) auto
    qed
  qed
qed

lemma mkdirs_okD: "mkdirs_ok M \<Longrightarrow> cl \<in> set M \<Longrightarrow> is_MkdirAll cl \<and> call_err cl = None"
  by (simp add: mkdirs_ok_def list_all_iff)

lemma mkdirs_ok_all: "mkdirs_ok M \<Longrightarrow> list_all (\<lambda>cl. call_err cl = None) M"
  by (simp add: mkdirs_ok_def list_all_iff)

lemma mkdirs_ok_no_Save: "mkdirs_ok M \<Longrightarrow> filter is_SaveErrorDetails M = []"
  by (auto simp: mkdirs_ok_def list_all_iff filter_empty_conv is_MkdirAll_def)

section \<open>Runs with the scripted collaborators\<close>

text \<open>
  The model evaluated on the experiment \<open>exp0\<close>: what \<open>Run\<close> returns, the paths that
  exist afterwards and the calls it made. In the first run the build privilege is set
  and the derived image is already there; in the others it is absent, and one
  collaborator fails.
\<close>

lemmas run_defs = Run_def Run_provision_def Run_launch_def deferred_uninstall_def createNewContainer_def
  createMPIContainer_def setExperimentCfg_def mkdirIfAbsent_def logged_def scripted_def scripted_Builder_def
  all_succeed_def exp0_def sys0_def zero_results_Result_def zero_advexec_Result_def zero_mpi_Config_def
  zero_container_Config_def zero_implem_Info_def zero_buildenv_Info_def fmt_s_def Let_def

lemma run_image_exists:
  "Run (scripted all_succeed) exp0 sys0 \<lparr>sy_BuildPrivilege = True\<rparr>
       \<lparr>world = [''/c/ubuntu-ompi-4.0-init-hybrid.sif''], calls = []\<rparr> =
     (Returned False (zero_results_Result\<lparr>res_Pass := True, res_Note := ''ok''\<rparr>) zero_advexec_Result,
      \<lparr>world = [''/c/ubuntu-ompi-4.0-init-hybrid.sif'', ''/cs'', ''/cb'', ''/hs'', ''/hb'',
                 ''/c/ubuntu-ompi-4.0-init-hybrid.sif''],
       calls = [Call_MkdirAll ''/hb'' None, Call_MkdirAll ''/hs'' None, Call_MkdirAll ''/cb'' None,
                Call_MkdirAll ''/cs'' None, Call_jm_Detect, Call_builder_Load None,
                Call_InstallOnHost None, Call_builder_Load None, Call_GenerateDeffile None,
                Call_container_Create None,
                Call_launcher_Run (zero_results_Result\<lparr>res_Pass := True\<rparr>) zero_advexec_Result,
                Call_processOutput None, Call_UninstallHost None]\<rparr>)"
  by (simp add: run_defs)

lemma run_install_fails:
  "Run (scripted (all_succeed\<lparr>on_InstallOnHost := Some ''boom''\<rparr>)) exp0 sys0
       \<lparr>sy_BuildPrivilege = True\<rparr> \<lparr>world = [], calls = []\<rparr> =
     (Returned False zero_results_Result
        (zero_advexec_Result\<lparr>exec_Err := Some ''failed to install MPI on host''\<rparr>),
      \<lparr>world = [''/cs'', ''/cb'', ''/hs'', ''/hb''],
       calls = [Call_MkdirAll ''/hb'' None, Call_MkdirAll ''/hs'' None, Call_MkdirAll ''/cb'' None,
                Call_MkdirAll ''/cs'' None, Call_jm_Detect, Call_builder_Load None,
                Call_InstallOnHost (Some ''boom''), Call_SaveErrorDetails None]\<rparr>)"
  by (simp add: run_defs)

lemma run_install_and_save_fail:
  "Run (scripted (all_succeed\<lparr>on_InstallOnHost := Some ''boom'', on_SaveErrorDetails := Some ''disk full''\<rparr>))
       exp0 sys0 \<lparr>sy_BuildPrivilege = True\<rparr> \<lparr>world = [], calls = []\<rparr> =
     (Returned False zero_results_Result
        (zero_advexec_Result\<lparr>exec_Err := Some ''failed to save error details: disk full''\<rparr>),
      \<lparr>world = [''/cs'', ''/cb'', ''/hs'', ''/hb''],
       calls = [Call_MkdirAll ''/hb'' None, Call_MkdirAll ''/hs'' None, Call_MkdirAll ''/cb'' None,
                Call_MkdirAll ''/cs'' None, Call_jm_Detect, Call_builder_Load None,
                Call_InstallOnHost (Some ''boom''), Call_SaveErrorDetails (Some ''disk full'')]\<rparr>)"
  by (simp add: run_defs)

lemma run_workload_fails:
  "Run (scripted (all_succeed\<lparr>on_launcher_Pass := False\<rparr>)) exp0 sys0
       \<lparr>sy_BuildPrivilege = False\<rparr> \<lparr>world = [], calls = []\<rparr> =
     (Returned False zero_results_Result zero_advexec_Result,
      \<lparr>world = [''/c/ubuntu-ompi-4.0-init-hybrid.sif'', ''/cs'', ''/cb'', ''/hs'', ''/hb''],
       calls = [Call_MkdirAll ''/hb'' None, Call_MkdirAll ''/hs'' None, Call_MkdirAll ''/cb'' None,
                Call_MkdirAll ''/cs'' None, Call_jm_Detect, Call_builder_Load None,
                Call_InstallOnHost None, Call_PullContainerImage None,
                Call_launcher_Run zero_results_Result zero_advexec_Result,
                Call_UninstallHost None]\<rparr>)"
  by (simp add: run_defs)

lemma run_workload_and_uninstall_fail:
  "Run (scripted (all_succeed\<lparr>on_launcher_Pass := False, on_UninstallHost := Some ''busy''\<rparr>)) exp0 sys0
       \<lparr>sy_BuildPrivilege = False\<rparr> \<lparr>world = [], calls = []\<rparr> =
     (Exited ''failed to uninstall MPI: %!s(<nil>)'',
      \<lparr>world = [''/c/ubuntu-ompi-4.0-init-hybrid.sif'', ''/cs'', ''/cb'', ''/hs'', ''/hb''],
       calls = [Call_MkdirAll ''/hb'' None, Call_MkdirAll ''/hs'' None, Call_MkdirAll ''/cb'' None,
                Call_MkdirAll ''/cs'' None, Call_jm_Detect, Call_builder_Load None,
                Call_InstallOnHost None, Call_PullContainerImage None,
                Call_launcher_Run zero_results_Result zero_advexec_Result,
                Call_UninstallHost (Some ''busy'')]\<rparr>)"
  by (simp add: run_defs)

lemma run_pull_fails:
  "Run (scripted (all_succeed\<lparr>on_PullContainerImage := Some ''no route''\<rparr>)) exp0 sys0
       \<lparr>sy_BuildPrivilege = False\<rparr> \<lparr>world = [], calls = []\<rparr> =
     (Returned False zero_results_Result
        (zero_advexec_Result\<lparr>exec_Err := Some ''failed to pull container: no route''\<rparr>),
      \<lparr>world = [''/cs'', ''/cb'', ''/hs'', ''/hb''],
       calls = [Call_MkdirAll ''/hb'' None, Call_MkdirAll ''/hs'' None, Call_MkdirAll ''/cb'' None,
                Call_MkdirAll ''/cs'' None, Call_jm_Detect, Call_builder_Load None,
                Call_InstallOnHost None, Call_PullContainerImage (Some ''no route''),
                Call_UninstallHost None]\<rparr>)"
  by (simp add: run_defs)

lemma run_launch_and_save_fail:
  "Run (scripted (all_succeed\<lparr>on_launcher_Err := Some ''no host'', on_SaveErrorDetails := Some ''disk full''\<rparr>))
       exp0 sys0 \<lparr>sy_BuildPrivilege = False\<rparr> \<lparr>world = [], calls = []\<rparr> =
     (Returned False zero_results_Result
        (zero_advexec_Result\<lparr>exec_Err := Some ''failed to save error details: disk full''\<rparr>),
      \<lparr>world = [''/c/ubuntu-ompi-4.0-init-hybrid.sif'', ''/cs'', ''/cb'', ''/hs'', ''/hb''],
       calls = [Call_MkdirAll ''/hb'' None, Call_MkdirAll ''/hs'' None, Call_MkdirAll ''/cb'' None,
                Call_MkdirAll ''/cs'' None, Call_jm_Detect, Call_builder_Load None,
                Call_InstallOnHost None, Call_PullContainerImage None,
                Call_launcher_Run (zero_results_Result\<lparr>res_Pass := True\<rparr>)
                  (zero_advexec_Result\<lparr>exec_Err := Some ''no host''\<rparr>),
                Call_SaveErrorDetails (Some ''disk full''), Call_UninstallHost None]\<rparr>)"
  by (simp add: run_defs)

lemmas shape_defs = finished_def image_ready_def failed_build_def

section \<open>Results on Run\<close>

text \<open>
  The provisioning stage skips the build in two cases: a path already exists at
  \<^verbatim>\<open>exp.Container.Path\<close>, the path the experiment was given; or, inside
  \<open>createNewContainer\<close>, the run is persistent and the derived image exists.
\<close>

lemma Run_provision_existing_path:
  "sy_BuildPrivilege syConfig \<or> sys_Nopriv sysCfg \<Longrightarrow>
   PathExists c (ctr_Path (Container exp)) (world s) \<Longrightarrow>
   Run_provision c exp sysCfg syConfig h cc j execRes s = Run_launch c exp sysCfg h cc j None s"
  by (simp add: Run_provision_def)

lemma createNewContainer_persistent:
  "sys_Persistent sysCfg \<noteq> [] \<Longrightarrow> FileExists c (ctr_Path (mpi_Container cc)) (world s) \<Longrightarrow>
   createNewContainer c cc exp sysCfg syConfig s = (zero_advexec_Result, s)"
  by (simp add: createNewContainer_def)

text \<open>
  C1 (the code departs from the claim): the build privilege is set, the run is not
  persistent, and an image exists at the derived path, the install directory joined
  with the derived name; the experiment itself carries an empty container path, since
  \<open>setExperimentCfg\<close> stores the derived path in its own copy. \<open>Run\<close> tests the
  experiment's path, finds nothing, and builds: the definition file is generated and
  the image is created.
\<close>

theorem Run_builds_although_image_exists:
  "(case setExperimentCfg (scripted all_succeed) exp0 sys0 \<lparr>sy_BuildPrivilege = True\<rparr>
           \<lparr>world = [''/c/ubuntu-ompi-4.0-init-hybrid.sif''], calls = []\<rparr> of
      ((myHostMPICfg, myContainerMPICfg, err), s1) \<Rightarrow>
        err = None
        \<and> ctr_Path (mpi_Container myContainerMPICfg) = ''/c/ubuntu-ompi-4.0-init-hybrid.sif''
        \<and> PathExists (scripted all_succeed) (ctr_Path (mpi_Container myContainerMPICfg)) (world s1))
   \<and> filter (\<lambda>cl. is_GenerateDeffile cl \<or> is_container_Create cl)
        (calls (snd (Run (scripted all_succeed) exp0 sys0 \<lparr>sy_BuildPrivilege = True\<rparr>
                       \<lparr>world = [''/c/ubuntu-ompi-4.0-init-hybrid.sif''], calls = []\<rparr>)))
      = [Call_GenerateDeffile None, Call_container_Create None]"
proof -
  have "filter (\<lambda>cl. is_GenerateDeffile cl \<or> is_container_Create cl)
          (calls (snd (Run (scripted all_succeed) exp0 sys0 \<lparr>sy_BuildPrivilege = True\<rparr>
                         \<lparr>world = [''/c/ubuntu-ompi-4.0-init-hybrid.sif''], calls = []\<rparr>)))
        = [Call_GenerateDeffile None, Call_container_Create None]"
    by (simp add: run_image_exists)
  then show ?thesis
    by (simp add: setExperimentCfg_def mkdirIfAbsent_def logged_def scripted_def all_succeed_def
        exp0_def zero_container_Config_def zero_mpi_Config_def Let_def)
qed

text \<open>
  C3: when \<open>Run\<close> returns an outcome with the pass flag set, every call the run made
  returned no error (the directory creations of the configuration, the builder load, the
  host install, the image build or pull), the launcher reported a passing outcome with
  no error, the output analysis succeeded, and the returned execution result carries
  no error. Read the other way: a run in which a stage failed returns the pass flag
  unset.
\<close>

theorem Run_Pass_only_after_every_stage:
  assumes "Run c exp sysCfg syConfig \<lparr>world = w, calls = []\<rparr> = (Returned b expRes execRes, s')"
    and "res_Pass expRes"
  shows "list_all (\<lambda>cl. call_err cl = None) (calls s')
         \<and> Call_builder_Load None \<in> set (calls s')
         \<and> Call_InstallOnHost None \<in> set (calls s')
         \<and> list_ex launcher_passed (calls s')
         \<and> Call_processOutput None \<in> set (calls s')
         \<and> exec_Err execRes = None"
  using assms(1)
proof (cases rule: Run_paths)
  case (passed M Q expRes0 execRes0 expRes1 U)
  then show ?thesis
    by (auto simp: finished_def image_ready_def mkdirs_ok_all split: if_splits)
qed (use assms(2) in \<open>auto simp: finished_def split: if_splits\<close>)

text \<open>
  The run on the existing image passes, and every call it made succeeded.
\<close>

theorem Run_Pass_witness:
  "(case Run (scripted all_succeed) exp0 sys0 \<lparr>sy_BuildPrivilege = True\<rparr>
           \<lparr>world = [''/c/ubuntu-ompi-4.0-init-hybrid.sif''], calls = []\<rparr> of
      (Returned b expRes execRes, s') \<Rightarrow>
        res_Pass expRes
        \<and> list_all (\<lambda>cl. call_err cl = None) (calls s')
        \<and> Call_builder_Load None \<in> set (calls s')
        \<and> Call_InstallOnHost None \<in> set (calls s')
        \<and> list_ex launcher_passed (calls s')
        \<and> Call_processOutput None \<in> set (calls s')
        \<and> exec_Err execRes = None
    | (Exited m, s') \<Rightarrow> False)"
proof -
  have pass: "res_Pass (zero_results_Result\<lparr>res_Pass := True, res_Note := ''ok''\<rparr>)"
    by simp
  from Run_Pass_only_after_every_stage [OF run_image_exists pass] pass
  show ?thesis
    by (simp only: run_image_exists prod.case outcome.case) 
qed

text \<open>
  C4, as stated, fails: when the host install fails and the diagnostic persister fails
  too, the returned error is the persister's, and the text
  \<^verbatim>\<open>failed to install MPI on host\<close> is no longer in it.
\<close>

theorem Run_host_install_failure_masked:
  "fst (Run (scripted (all_succeed\<lparr>on_InstallOnHost := Some ''boom'', on_SaveErrorDetails := Some ''disk full''\<rparr>))
          exp0 sys0 \<lparr>sy_BuildPrivilege = True\<rparr> \<lparr>world = [], calls = []\<rparr>)
     = Returned False zero_results_Result
         (zero_advexec_Result\<lparr>exec_Err := Some ''failed to save error details: disk full''\<rparr>)
   \<and> Call_InstallOnHost (Some ''boom'')
       \<in> set (calls (snd (Run (scripted (all_succeed\<lparr>on_InstallOnHost := Some ''boom'',
                                                    on_SaveErrorDetails := Some ''disk full''\<rparr>))
                             exp0 sys0 \<lparr>sy_BuildPrivilege = True\<rparr> \<lparr>world = [], calls = []\<rparr>)))
   \<and> \<not> strings_Contains ''failed to save error details: disk full'' ''failed to install MPI on host''"
  by (simp add: run_install_and_save_fail)

text \<open>
  C4, amended: if the host install returns an error, \<open>Run\<close> returns false and an
  outcome with the pass flag unset, and calls the diagnostic persister exactly once;
  the returned error is \<^verbatim>\<open>failed to install MPI on host\<close> when the persister
  succeeds, and \<^verbatim>\<open>failed to save error details: \<close> followed by the persister's
  error when it fails.
\<close>

theorem Run_host_install_failure:
  assumes "Run c exp sysCfg syConfig \<lparr>world = w, calls = []\<rparr> = (out, s')"
    and "Call_InstallOnHost (Some e) \<in> set (calls s')"
  shows "\<exists>expRes execRes saveErr.
           out = Returned False expRes execRes \<and> \<not> res_Pass expRes
           \<and> filter is_SaveErrorDetails (calls s') = [Call_SaveErrorDetails saveErr]
           \<and> exec_Err execRes =
               Some (case saveErr of
                       None \<Rightarrow> ''failed to install MPI on host''
                     | Some m \<Rightarrow> ''failed to save error details: '' @ m)"
  using assms(1)
proof (cases rule: Run_paths)
  case (install_failed M e0 saveErr execRes0)
  then show ?thesis
    by (auto simp: zero_results_Result_def mkdirs_ok_no_Save)
qed (use assms(2) in \<open>auto simp: finished_def image_ready_def failed_build_def dest: mkdirs_okD split: if_splits\<close>)

text \<open>
  A run whose host install fails with \<^verbatim>\<open>boom\<close>.
\<close>

theorem Run_host_install_failure_witness:
  "Call_InstallOnHost (Some ''boom'')
       \<in> set (calls (snd (Run (scripted (all_succeed\<lparr>on_InstallOnHost := Some ''boom''\<rparr>))
                             exp0 sys0 \<lparr>sy_BuildPrivilege = True\<rparr> \<lparr>world = [], calls = []\<rparr>)))
   \<and> (\<exists>expRes execRes saveErr.
         fst (Run (scripted (all_succeed\<lparr>on_InstallOnHost := Some ''boom''\<rparr>))
                exp0 sys0 \<lparr>sy_BuildPrivilege = True\<rparr> \<lparr>world = [], calls = []\<rparr>)
           = Returned False expRes execRes
         \<and> \<not> res_Pass expRes
         \<and> filter is_SaveErrorDetails
             (calls (snd (Run (scripted (all_succeed\<lparr>on_InstallOnHost := Some ''boom''\<rparr>))
                            exp0 sys0 \<lparr>sy_BuildPrivilege = True\<rparr> \<lparr>world = [], calls = []\<rparr>)))
             = [Call_SaveErrorDetails saveErr]
         \<and> exec_Err execRes =
             Some (case saveErr of
                     None \<Rightarrow> ''failed to install MPI on host''
                   | Some m \<Rightarrow> ''failed to save error details: '' @ m))"
proof -
  let ?run = "Run (scripted (all_succeed\<lparr>on_InstallOnHost := Some ''boom''\<rparr>))
                exp0 sys0 \<lparr>sy_BuildPrivilege = True\<rparr> \<lparr>world = [], calls = []\<rparr>"
  have failed: "Call_InstallOnHost (Some ''boom'') \<in> set (calls (snd ?run))"
    by (simp add: run_install_fails)
  have "?run = (fst ?run, snd ?run)" by simp
  from Run_host_install_failure [OF this failed] failed show ?thesis by blast
qed

text \<open>
  C5, as stated, fails on two paths. After a host install that failed with
  \<^verbatim>\<open>boom\<close> the returned error is the fixed text
  \<^verbatim>\<open>failed to install MPI on host\<close>, which does not contain the underlying message.
  After a launch that failed with \<^verbatim>\<open>no host\<close> and a diagnostic persister that
  failed too, the returned error is the persister's: it contains neither the context of
  the run stage nor the launcher's message.
\<close>

theorem Run_error_without_cause:
  "fst (Run (scripted (all_succeed\<lparr>on_InstallOnHost := Some ''boom''\<rparr>))
          exp0 sys0 \<lparr>sy_BuildPrivilege = True\<rparr> \<lparr>world = [], calls = []\<rparr>)
     = Returned False zero_results_Result
         (zero_advexec_Result\<lparr>exec_Err := Some ''failed to install MPI on host''\<rparr>)
   \<and> Call_InstallOnHost (Some ''boom'')
       \<in> set (calls (snd (Run (scripted (all_succeed\<lparr>on_InstallOnHost := Some ''boom''\<rparr>))
                             exp0 sys0 \<lparr>sy_BuildPrivilege = True\<rparr> \<lparr>world = [], calls = []\<rparr>)))
   \<and> \<not> strings_Contains ''failed to install MPI on host'' ''boom''
   \<and> fst (Run (scripted (all_succeed\<lparr>on_launcher_Err := Some ''no host'',
                                       on_SaveErrorDetails := Some ''disk full''\<rparr>))
            exp0 sys0 \<lparr>sy_BuildPrivilege = False\<rparr> \<lparr>world = [], calls = []\<rparr>)
       = Returned False zero_results_Result
           (zero_advexec_Result\<lparr>exec_Err := Some ''failed to save error details: disk full''\<rparr>)
   \<and> Call_launcher_Run (zero_results_Result\<lparr>res_Pass := True\<rparr>)
         (zero_advexec_Result\<lparr>exec_Err := Some ''no host''\<rparr>)
       \<in> set (calls (snd (Run (scripted (all_succeed\<lparr>on_launcher_Err := Some ''no host'',
                                                    on_SaveErrorDetails := Some ''disk full''\<rparr>))
                             exp0 sys0 \<lparr>sy_BuildPrivilege = False\<rparr> \<lparr>world = [], calls = []\<rparr>)))
   \<and> \<not> strings_Contains ''failed to save error details: disk full'' ''failed to run experiment''
   \<and> \<not> strings_Contains ''failed to save error details: disk full'' ''no host''"
proof -
  have "\<not> strings_Contains ''failed to install MPI on host'' ''boom''"
    and "\<not> strings_Contains ''failed to save error details: disk full'' ''failed to run experiment''"
    and "\<not> strings_Contains ''failed to save error details: disk full'' ''no host''"
    by simp_all
  then show ?thesis
    by (simp add: run_install_fails run_launch_and_save_fail)
qed

text \<open>
  C5, amended: when \<open>Run\<close> returns after a call failed, the returned error is not
  nil. It is the context of the stage followed by the underlying message for a
  configuration error (\<^verbatim>\<open>failed to set experiment's configuration: failed to create
  DIR: \<close>), a builder load failure, a pull failure, a run failure whose diagnostics were
  saved, and an analysis failure. For a host install failure whose diagnostics were saved
  it is the fixed text \<^verbatim>\<open>failed to install MPI on host\<close>, without the underlying
  message. When saving the diagnostics of a host install or run failure fails, it is
  \<^verbatim>\<open>failed to save error details: \<close> followed by the persister's error. Nothing is
  said here about the text returned after a failed image build.
\<close>

theorem Run_error_context:
  assumes "Run c exp sysCfg syConfig \<lparr>world = w, calls = []\<rparr> = (Returned b expRes execRes, s')"
  shows "(list_ex (\<lambda>cl. call_err cl \<noteq> None) (calls s') \<longrightarrow> exec_Err execRes \<noteq> None)
       \<and> (\<forall>dir e. Call_MkdirAll dir (Some e) \<in> set (calls s') \<longrightarrow>
             exec_Err execRes =
               Some (''failed to set experiment's configuration: failed to create '' @ dir @ '': '' @ e))
       \<and> (\<forall>e. Call_builder_Load (Some e) \<in> set (calls s') \<and> \<not> list_ex is_InstallOnHost (calls s') \<longrightarrow>
             exec_Err execRes = Some (''unable to load a builder: '' @ e))
       \<and> (\<forall>e. Call_InstallOnHost (Some e) \<in> set (calls s') \<and> Call_SaveErrorDetails None \<in> set (calls s') \<longrightarrow>
             exec_Err execRes = Some ''failed to install MPI on host'')
       \<and> (\<forall>e. Call_PullContainerImage (Some e) \<in> set (calls s') \<longrightarrow>
             exec_Err execRes = Some (''failed to pull container: '' @ e))
       \<and> (\<forall>r x e. Call_launcher_Run r x \<in> set (calls s') \<and> res_Pass r \<and> exec_Err x = Some e
                  \<and> Call_SaveErrorDetails None \<in> set (calls s') \<longrightarrow>
             exec_Err execRes = Some (''failed to run experiment: '' @ e))
       \<and> (\<forall>e. Call_processOutput (Some e) \<in> set (calls s') \<longrightarrow>
             exec_Err execRes = Some (''failed to process output: '' @ e))
       \<and> (\<forall>m. Call_SaveErrorDetails (Some m) \<in> set (calls s')
               \<and> list_ex (\<lambda>cl. is_launcher_Run cl \<or> is_InstallOnHost cl \<and> call_err cl \<noteq> None) (calls s') \<longrightarrow>
             exec_Err execRes = Some (''failed to save error details: '' @ m))"
  using assms
proof (cases rule: Run_paths)
  case (cfg_failed M dir e)
  then show ?thesis by (auto simp: list_ex_iff dest: mkdirs_okD)
next
  case (load_failed M e)
  then show ?thesis by (auto simp: list_ex_iff dest: mkdirs_okD)
next
  case (install_failed M e saveErr execRes)
  then show ?thesis by (auto simp: list_ex_iff dest: mkdirs_okD)
next
  case (build_failed M e B saveErr res U)
  then show ?thesis by (auto simp: list_ex_iff shape_defs dest: mkdirs_okD split: if_splits)
next
  case (pull_failed M pullErr execRes U)
  then show ?thesis by (auto simp: list_ex_iff shape_defs dest: mkdirs_okD split: if_splits)
next
  case (failed_outcome M Q expRes execRes U)
  then show ?thesis by (auto simp: list_ex_iff shape_defs dest: mkdirs_okD split: if_splits)
next
  case (run_failed M Q expRes execRes runErr saveErr U)
  then show ?thesis by (auto simp: list_ex_iff shape_defs dest: mkdirs_okD split: if_splits)
next
  case (analysis_failed M Q expRes execRes outErr expRes1 U)
  then show ?thesis by (auto simp: list_ex_iff shape_defs dest: mkdirs_okD split: if_splits)
next
  case (passed M Q expRes execRes expRes1 U)
  then show ?thesis by (auto simp: list_ex_iff shape_defs dest: mkdirs_okD split: if_splits)
qed

text \<open>
  A run whose pull fails, and a run whose host install and diagnostic persister both
  fail.
\<close>

theorem Run_error_context_witness:
  "(\<exists>b expRes execRes.
      fst (Run (scripted (all_succeed\<lparr>on_PullContainerImage := Some ''no route''\<rparr>)) exp0 sys0
             \<lparr>sy_BuildPrivilege = False\<rparr> \<lparr>world = [], calls = []\<rparr>) = Returned b expRes execRes
      \<and> exec_Err execRes = Some (''failed to pull container: '' @ ''no route''))
   \<and> (\<exists>b expRes execRes.
      fst (Run (scripted (all_succeed\<lparr>on_InstallOnHost := Some ''boom'',
                                       on_SaveErrorDetails := Some ''disk full''\<rparr>)) exp0 sys0
             \<lparr>sy_BuildPrivilege = True\<rparr> \<lparr>world = [], calls = []\<rparr>) = Returned b expRes execRes
      \<and> exec_Err execRes = Some (''failed to save error details: '' @ ''disk full''))"
proof -
  have pull: "Call_PullContainerImage (Some ''no route'')
                \<in> set [Call_MkdirAll ''/hb'' None, Call_MkdirAll ''/hs'' None, Call_MkdirAll ''/cb'' None,
                       Call_MkdirAll ''/cs'' None, Call_jm_Detect, Call_builder_Load None,
                       Call_InstallOnHost None, Call_PullContainerImage (Some ''no route''),
                       Call_UninstallHost None]"
    by simp
  from Run_error_context [OF run_pull_fails] pull
  have "exec_Err (zero_advexec_Result\<lparr>exec_Err := Some ''failed to pull container: no route''\<rparr>)
          = Some (''failed to pull container: '' @ ''no route'')"
    by simp
  then have one: "\<exists>b expRes execRes.
      fst (Run (scripted (all_succeed\<lparr>on_PullContainerImage := Some ''no route''\<rparr>)) exp0 sys0
             \<lparr>sy_BuildPrivilege = False\<rparr> \<lparr>world = [], calls = []\<rparr>) = Returned b expRes execRes
      \<and> exec_Err execRes = Some (''failed to pull container: '' @ ''no route'')"
    by (simp only: run_pull_fails fst_conv) blast
  from Run_error_context [OF run_install_and_save_fail]
  have "exec_Err (zero_advexec_Result\<lparr>exec_Err := Some ''failed to save error details: disk full''\<rparr>)
          = Some (''failed to save error details: '' @ ''disk full'')"
    by simp
  then have two: "\<exists>b expRes execRes.
      fst (Run (scripted (all_succeed\<lparr>on_InstallOnHost := Some ''boom'',
                                       on_SaveErrorDetails := Some ''disk full''\<rparr>)) exp0 sys0
             \<lparr>sy_BuildPrivilege = True\<rparr> \<lparr>world = [], calls = []\<rparr>) = Returned b expRes execRes
      \<and> exec_Err execRes = Some (''failed to save error details: '' @ ''disk full'')"
    by (simp only: run_install_and_save_fail fst_conv) blast
  from one two show ?thesis by (rule conjI)
qed

text \<open>
  C6, as stated, fails: in a run that is not persistent the deferred uninstall runs
  after the launcher reported a failing outcome, and when it fails the process exits:
  \<open>Run\<close> does not return.
\<close>

theorem Run_failed_outcome_exits:
  "fst (Run (scripted (all_succeed\<lparr>on_launcher_Pass := False, on_UninstallHost := Some ''busy''\<rparr>)) exp0 sys0
          \<lparr>sy_BuildPrivilege = False\<rparr> \<lparr>world = [], calls = []\<rparr>)
     = Exited ''failed to uninstall MPI: %!s(<nil>)''
   \<and> Call_launcher_Run zero_results_Result zero_advexec_Result
       \<in> set (calls (snd (Run (scripted (all_succeed\<lparr>on_launcher_Pass := False,
                                                    on_UninstallHost := Some ''busy''\<rparr>)) exp0 sys0
                             \<lparr>sy_BuildPrivilege = False\<rparr> \<lparr>world = [], calls = []\<rparr>)))
   \<and> \<not> res_Pass zero_results_Result"
  by (simp add: run_workload_and_uninstall_fail zero_results_Result_def)

text \<open>
  C6, amended: if the launcher returns an outcome whose pass flag is unset, the run
  calls neither the diagnostic persister nor the output analysis. When the run is
  persistent, or the deferred host uninstall succeeds, \<open>Run\<close> returns false, that
  outcome and the launcher's execution result; otherwise the deferred uninstall failed
  and the process exits.
\<close>

theorem Run_failed_outcome:
  assumes "Run c exp sysCfg syConfig \<lparr>world = w, calls = []\<rparr> = (out, s')"
    and "Call_launcher_Run expRes execRes \<in> set (calls s')"
    and "\<not> res_Pass expRes"
  shows "\<not> list_ex is_SaveErrorDetails (calls s')
         \<and> \<not> list_ex is_processOutput (calls s')
         \<and> (if IsPersistent c sysCfg \<or> Call_UninstallHost None \<in> set (calls s')
            then out = Returned False expRes execRes
            else (\<exists>m. out = Exited m) \<and> (\<exists>e. Call_UninstallHost (Some e) \<in> set (calls s')))"
  using assms(1)
proof (cases rule: Run_paths)
  case (failed_outcome M Q expRes0 execRes0 U)
  with assms(2,3) show ?thesis
    by (auto simp: finished_def image_ready_def list_ex_iff dest: mkdirs_okD split: if_splits)
qed (use assms(2,3) in \<open>auto simp: finished_def image_ready_def failed_build_def dest: mkdirs_okD split: if_splits\<close>)

text \<open>
  A run whose workload fails and whose deferred uninstall succeeds.
\<close>

theorem Run_failed_outcome_witness:
  "Call_launcher_Run zero_results_Result zero_advexec_Result
       \<in> set (calls (snd (Run (scripted (all_succeed\<lparr>on_launcher_Pass := False\<rparr>)) exp0 sys0
                             \<lparr>sy_BuildPrivilege = False\<rparr> \<lparr>world = [], calls = []\<rparr>)))
   \<and> \<not> res_Pass zero_results_Result
   \<and> Call_UninstallHost None
       \<in> set (calls (snd (Run (scripted (all_succeed\<lparr>on_launcher_Pass := False\<rparr>)) exp0 sys0
                             \<lparr>sy_BuildPrivilege = False\<rparr> \<lparr>world = [], calls = []\<rparr>)))
   \<and> \<not> list_ex is_SaveErrorDetails
         (calls (snd (Run (scripted (all_succeed\<lparr>on_launcher_Pass := False\<rparr>)) exp0 sys0
                        \<lparr>sy_BuildPrivilege = False\<rparr> \<lparr>world = [], calls = []\<rparr>)))
   \<and> \<not> list_ex is_processOutput
         (calls (snd (Run (scripted (all_succeed\<lparr>on_launcher_Pass := False\<rparr>)) exp0 sys0
                        \<lparr>sy_BuildPrivilege = False\<rparr> \<lparr>world = [], calls = []\<rparr>)))
   \<and> fst (Run (scripted (all_succeed\<lparr>on_launcher_Pass := False\<rparr>)) exp0 sys0
            \<lparr>sy_BuildPrivilege = False\<rparr> \<lparr>world = [], calls = []\<rparr>)
       = Returned False zero_results_Result zero_advexec_Result"
proof -
  let ?run = "Run (scripted (all_succeed\<lparr>on_launcher_Pass := False\<rparr>)) exp0 sys0
                \<lparr>sy_BuildPrivilege = False\<rparr> \<lparr>world = [], calls = []\<rparr>"
  have launched: "Call_launcher_Run zero_results_Result zero_advexec_Result \<in> set (calls (snd ?run))"
    by (simp add: run_workload_fails)
  have failed: "\<not> res_Pass zero_results_Result"
    by (simp add: zero_results_Result_def)
  have uninstalled: "Call_UninstallHost None \<in> set (calls (snd ?run))"
    by (simp add: run_workload_fails)
  have "?run = (fst ?run, snd ?run)" by simp
  from Run_failed_outcome [OF this launched failed] launched failed uninstalled
  show ?thesis by simp
qed

text \<open>
  C7: whatever \<open>Run\<close> returns, on every path, its first result is false.
\<close>

theorem Run_first_result_false:
  "Run c exp sysCfg syConfig s = (Returned b expRes execRes, s') \<Longrightarrow> b = False"
  by (cases rule: Run_paths) (auto simp: finished_def split: if_splits)

text \<open>
  A run whose pull fails returns false first.
\<close>

theorem Run_first_result_false_witness:
  "(case Run (scripted (all_succeed\<lparr>on_PullContainerImage := Some ''no route''\<rparr>)) exp0 sys0
           \<lparr>sy_BuildPrivilege = False\<rparr> \<lparr>world = [], calls = []\<rparr> of
      (Returned b expRes execRes, s') \<Rightarrow> b = False
    | (Exited m, s') \<Rightarrow> False)"
  using Run_first_result_false [OF run_pull_fails]
  by (simp only: run_pull_fails prod.case outcome.case)

end
